theory Spec2Isabelle
  imports Complex_Main "HOL-Library.Word"
begin

section \<open>Conventions of the embedding\<close>

text \<open>
  The repository holds four independent C++ drivers around BLAS/LAPACK routines:
  the general matrix product \<^verbatim>\<open>matmul_dgemm_general.cpp\<close>, a 2x2 singular value
  decomposition, and two least-squares fits (\<^verbatim>\<open>main-ecnormal-modelo-lineal.cpp\<close>,
  \<^verbatim>\<open>main-ecnormal-modelo-cuadratico.cpp\<close>).

  \<^item> A \<^verbatim>\<open>double\<close> is a value of a type variable \<open>'a\<close>. The layout adapters and the
    reader only copy such values, so their definitions use nothing of \<open>'a\<close> but the
    constant \<open>0\<close> that fills a fresh \<^verbatim>\<open>std::vector\<close>. Where the code does arithmetic the
    type is a commutative semiring (an ordered field for the diagnostics): the exact
    arithmetic that IEEE doubles approximate. Rounding is not modelled.
  \<^item> A C++ \<^verbatim>\<open>int\<close> read from the input is a 32-bit word, read through \<open>sint\<close>. Loop
    counters and \<^verbatim>\<open>size_t\<close> offsets are natural numbers: a dimension is below \<open>2^31\<close>,
    so no offset \<^verbatim>\<open>static_cast<size_t>(i) * cols + j\<close> reaches \<open>2^64\<close>
    (lemma \<open>size_t_offsets_fit\<close>).
  \<^item> An exception is a value of an error datatype; \<open>what\<close> gives its message. A
    \<^verbatim>\<open>throw\<close> is a branch that returns \<open>Inl\<close>, and the \<^verbatim>\<open>catch\<close> of \<^verbatim>\<open>main\<close> turns it into
    the exit code and the line on \<^verbatim>\<open>std::cerr\<close>.
  \<^item> What a run does to its environment is returned with it: the text on
    \<^verbatim>\<open>std::cout\<close> and \<^verbatim>\<open>std::cerr\<close>, the files it created, and the calls to
    \<^verbatim>\<open>dgemm_\<close> it made, each with its arguments.
  \<^item> The formatted extraction and insertion operators of the C++ library are
    parameters of the model (record \<open>iolib\<close>), as are the LAPACK routines whose
    results the drivers inspect. Memory allocation is taken to succeed.
\<close>

type_synonym cint = "32 word"

section \<open>The C++ library as the drivers use it\<close>

subsection \<open>Decimal rendering of integers\<close>

text \<open>\<^verbatim>\<open>std::to_string(int)\<close> and \<^verbatim>\<open>operator<<(int)\<close>: the decimal digits, with a minus sign
  for a negative value.\<close>

fun digits :: "nat \<Rightarrow> string" where
  "digits n =
     (if n < 10 then [''0123456789'' ! n]
      else digits (n div 10) @ [''0123456789'' ! (n mod 10)])"

declare digits.simps [simp del]

definition to_string :: "int \<Rightarrow> string" where
  "to_string k = (if k < 0 then CHR ''-'' # digits (nat (- k)) else digits (nat k))"

subsection \<open>Streams\<close>

datatype floatfield = General | Fixed

text \<open>The formatted operators of the C++ stream library, as parameters. \<open>'s\<close> is the
  state of an input stream. An extraction that fails returns \<open>None\<close>: the stream is then
  in its fail state and every driver throws at once, so no state after a failure is
  ever used. \<open>put_double\<close> is the text \<^verbatim>\<open>operator<<(double)\<close> produces under a float field
  and a precision.\<close>

record ('s, 'a) iolib =
  get_int :: "'s \<Rightarrow> (cint \<times> 's) option"
  get_double :: "'s \<Rightarrow> ('a \<times> 's) option"
  put_double :: "floatfield \<Rightarrow> nat \<Rightarrow> 'a \<Rightarrow> string"

text \<open>An output stream: the characters written so far and the formatting state. A fresh
  stream has the general float field, precision 6 and width 0; the width set by
  \<^verbatim>\<open>std::setw\<close> pads the next insertion on the left and is then reset.\<close>

record ostream =
  buf :: string
  fmt :: floatfield
  prec :: nat
  width :: nat

definition ostream_init :: ostream where
  "ostream_init = \<lparr>buf = [], fmt = General, prec = 6, width = 0\<rparr>"

definition put_str :: "string \<Rightarrow> ostream \<Rightarrow> ostream" where
  "put_str s out =
     out\<lparr>buf := buf out @ replicate (width out - length s) CHR '' '' @ s, width := 0\<rparr>"

definition put_int :: "int \<Rightarrow> ostream \<Rightarrow> ostream" where
  "put_int k out = put_str (to_string k) out"

definition put_dbl :: "('s, 'a) iolib \<Rightarrow> 'a \<Rightarrow> ostream \<Rightarrow> ostream" where
  "put_dbl L v out = put_str (put_double L (fmt out) (prec out) v) out"

definition setprecision :: "nat \<Rightarrow> ostream \<Rightarrow> ostream" where
  "setprecision p out = out\<lparr>prec := p\<rparr>"

definition std_fixed :: "ostream \<Rightarrow> ostream" where
  "std_fixed out = out\<lparr>fmt := Fixed\<rparr>"

definition setw :: "nat \<Rightarrow> ostream \<Rightarrow> ostream" where
  "setw w out = out\<lparr>width := w\<rparr>"

text \<open>A chain \<^verbatim>\<open>out << a << b << c\<close>: the insertions applied from left to right.\<close>

definition seq :: "('s \<Rightarrow> 's) list \<Rightarrow> 's \<Rightarrow> 's" where
  "seq fs s = fold (\<lambda>f. f) fs s"

text \<open>What a process leaves behind: its exit code, the two console streams and the files
  it created (path and content).\<close>

record process =
  exit_code :: int
  cout :: string
  cerr :: string
  files_written :: "(string \<times> string) list"

section \<open>The general matrix product (matmul_dgemm_general.cpp)\<close>

subsection \<open>Errors\<close>

text \<open>The four \<^verbatim>\<open>throw std::runtime_error(...)\<close> of the driver, one constructor each, and
  the message each carries. The two bytes \<open>0xC3 0xA1\<close> are the UTF-8 encoding of the
  accented letter of the source's string literal.\<close>

datatype error =
  CannotOpenInput string
  | InvalidDimensions
  | MatrixReadError string nat nat
  | CannotOpenOutput string

fun what :: "error \<Rightarrow> string" where
  "what (CannotOpenInput path) = ''No se pudo abrir el archivo de entrada: '' @ path"
| "what InvalidDimensions =
     ''Dimensiones inv'' @ [CHR 0xC3, CHR 0xA1] @
     ''lidas. Se espera: m n l (enteros positivos).''"
| "what (MatrixReadError name i j) =
     ''Error leyendo matriz '' @ name @ '' en ('' @ to_string (int i) @ '','' @
     to_string (int j) @ '').''"
| "what (CannotOpenOutput path) = ''No se pudo abrir el archivo de salida: '' @ path"

subsection \<open>Input reader\<close>

text \<open>\<^verbatim>\<open>read_matrix_row_major\<close>: the vector \<open>M\<close> starts as \<open>rows * cols\<close> zeros; the loops
  extract one \<^verbatim>\<open>double\<close> per position, in row-major order, and throw at the first
  extraction that fails. \<open>read_row\<close> is the inner loop over \<open>j\<close>, \<open>read_rows\<close> the outer
  loop over \<open>i\<close>. The driver calls the function with positive dimensions only.\<close>

fun read_row ::
  "('s, 'a) iolib \<Rightarrow> string \<Rightarrow> nat \<Rightarrow> nat \<Rightarrow> nat list \<Rightarrow> 'a list \<times> 's \<Rightarrow> error + 'a list \<times> 's"
where
  "read_row L name cols i [] (M, s) = Inr (M, s)"
| "read_row L name cols i (j # js) (M, s) =
     (case get_double L s of
        None \<Rightarrow> Inl (MatrixReadError name i j)
      | Some (v, s') \<Rightarrow> read_row L name cols i js (M[i * cols + j := v], s'))"

fun read_rows ::
  "('s, 'a) iolib \<Rightarrow> string \<Rightarrow> nat \<Rightarrow> nat list \<Rightarrow> 'a list \<times> 's \<Rightarrow> error + 'a list \<times> 's"
where
  "read_rows L name cols [] st = Inr st"
| "read_rows L name cols (i # is) st =
     (case read_row L name cols i [0..<cols] st of
        Inl e \<Rightarrow> Inl e
      | Inr st' \<Rightarrow> read_rows L name cols is st')"

definition read_matrix_row_major ::
  "('s, 'a::zero) iolib \<Rightarrow> 's \<Rightarrow> nat \<Rightarrow> nat \<Rightarrow> string \<Rightarrow> error + 'a list \<times> 's"
where
  "read_matrix_row_major L s rows cols name =
     read_rows L name cols [0..<rows] (replicate (rows * cols) 0, s)"

text \<open>\<^verbatim>\<open>fin >> m >> n >> l\<close>: three extractions of an \<^verbatim>\<open>int\<close>; after one that fails the
  later ones do nothing and the stream tests false.\<close>

definition read_dims :: "('s, 'a) iolib \<Rightarrow> 's \<Rightarrow> (cint \<times> cint \<times> cint \<times> 's) option" where
  "read_dims L s =
     (case get_int L s of
        None \<Rightarrow> None
      | Some (m, s1) \<Rightarrow>
          (case get_int L s1 of
             None \<Rightarrow> None
           | Some (n, s2) \<Rightarrow>
               (case get_int L s2 of
                  None \<Rightarrow> None
                | Some (l, s3) \<Rightarrow> Some (m, n, l, s3))))"

subsection \<open>Layout adapter\<close>

text \<open>Both adapters allocate \<open>rows * cols\<close> zeros and copy every element to its
  transposed offset. They read \<open>rm\<close> (\<open>cm\<close>) at offsets below \<open>rows * cols\<close> only; the
  results below are about buffers of exactly that size, which is what the driver passes.\<close>

definition to_col_major :: "'a::zero list \<Rightarrow> nat \<Rightarrow> nat \<Rightarrow> 'a list" where
  "to_col_major rm rows cols =
     fold (\<lambda>i. fold (\<lambda>j cm. cm[j * rows + i := rm ! (i * cols + j)]) [0..<cols])
       [0..<rows] (replicate (rows * cols) 0)"

definition to_row_major :: "'a::zero list \<Rightarrow> nat \<Rightarrow> nat \<Rightarrow> 'a list" where
  "to_row_major cm rows cols =
     fold (\<lambda>i. fold (\<lambda>j rm. rm[i * cols + j := cm ! (j * rows + i)]) [0..<cols])
       [0..<rows] (replicate (rows * cols) 0)"

subsection \<open>Result reporter\<close>

definition write_matrix_row_major ::
  "('s, 'a) iolib \<Rightarrow> 'a list \<Rightarrow> nat \<Rightarrow> nat \<Rightarrow> ostream \<Rightarrow> ostream"
where
  "write_matrix_row_major L rm rows cols =
     seq [put_int (int rows), put_str '' '', put_int (int cols), put_str ''\<newline>'',
          setprecision 17,
          fold (\<lambda>i. seq [fold (\<lambda>j. seq [put_dbl L (rm ! (i * cols + j)),
                                         if j + 1 < cols then put_str '' '' else seq []])
                            [0..<cols],
                          put_str ''\<newline>''])
            [0..<rows]]"

subsection \<open>The external routine\<close>

text \<open>The arguments of one call of \<^verbatim>\<open>dgemm_\<close>, in the order of its declaration.\<close>

record 'a dgemm_args =
  transa :: char
  transb :: char
  dim_m :: int
  dim_n :: int
  dim_k :: int
  alpha :: 'a
  mat_a :: "'a list"
  lda :: int
  mat_b :: "'a list"
  ldb :: int
  beta :: 'a
  mat_c :: "'a list"
  ldc :: int

definition notrans :: "char \<Rightarrow> bool" where
  "notrans t = (t = CHR ''N'' \<or> t = CHR ''n'')"

definition is_trans :: "char \<Rightarrow> bool" where
  "is_trans t = (t \<in> set ''NnTtCc'')"

text \<open>Element \<open>(i, k)\<close> of \<open>op(X)\<close> for a column-major buffer with leading dimension \<open>ld\<close>.\<close>

definition op_elem :: "char \<Rightarrow> 'a list \<Rightarrow> nat \<Rightarrow> nat \<Rightarrow> nat \<Rightarrow> 'a" where
  "op_elem t X ld i k = (if notrans t then X ! (i + k * ld) else X ! (k + i * ld))"

text \<open>Modelled from the spec: the argument conditions of the dense-multiply primitive
  (section 4.3: leading dimensions at least the row counts, buffers of the declared
  sizes), which the library documents and the repository does not contain.\<close>

definition dgemm_pre :: "'a dgemm_args \<Rightarrow> bool" where
  "dgemm_pre c =
     (is_trans (transa c) \<and> is_trans (transb c) \<and>
      0 \<le> dim_m c \<and> 0 \<le> dim_n c \<and> 0 \<le> dim_k c \<and>
      max 1 (if notrans (transa c) then dim_m c else dim_k c) \<le> lda c \<and>
      max 1 (if notrans (transb c) then dim_k c else dim_n c) \<le> ldb c \<and>
      max 1 (dim_m c) \<le> ldc c \<and>
      lda c * (if notrans (transa c) then dim_k c else dim_m c) \<le> int (length (mat_a c)) \<and>
      ldb c * (if notrans (transb c) then dim_n c else dim_k c) \<le> int (length (mat_b c)) \<and>
      ldc c * dim_n c \<le> int (length (mat_c c)))"

text \<open>Element \<open>(i, j)\<close> of the product \<open>op(A) * op(B)\<close> of a call: the sum over the
  \<open>K\<close> inner indices.\<close>

definition dgemm_entry :: "'a::comm_semiring_1 dgemm_args \<Rightarrow> nat \<Rightarrow> nat \<Rightarrow> 'a" where
  "dgemm_entry c i j =
     (\<Sum>k\<leftarrow>[0..<nat (dim_k c)].
        op_elem (transa c) (mat_a c) (nat (lda c)) i k *
        op_elem (transb c) (mat_b c) (nat (ldb c)) k j)"

text \<open>Modelled from the spec: the external BLAS routine \<^verbatim>\<open>dgemm_\<close>, of which the
  repository has the declaration only, with its contract as a comment:
  \<^verbatim>\<open>C = alpha*op(A)*op(B) + beta*C\<close> on column-major buffers. The model returns the new
  content of \<open>C\<close>: every element \<open>(i, j)\<close> of the \<open>M\<close> by \<open>N\<close> result is overwritten, the
  rest of the buffer is kept. Outside \<open>dgemm_pre\<close> the contract promises nothing; the
  model then leaves \<open>C\<close> as it is, and no result below rests on that branch.\<close>

definition dgemm :: "'a::comm_semiring_1 dgemm_args \<Rightarrow> 'a list" where
  "dgemm c =
     (if \<not> dgemm_pre c then mat_c c
      else
        fold (\<lambda>j. fold (\<lambda>i Cm.
                 Cm[i + j * nat (ldc c) :=
                      alpha c * dgemm_entry c i j + beta c * Cm ! (i + j * nat (ldc c))])
               [0..<nat (dim_m c)])
          [0..<nat (dim_n c)] (mat_c c))"

subsection \<open>The driver\<close>

text \<open>The file system as the driver meets it: opening a path for reading gives a stream
  or fails, opening a path for writing succeeds or fails.\<close>

record 's world =
  open_in :: "string \<Rightarrow> 's option"
  can_open_out :: "string \<Rightarrow> bool"

record 'a outcome = process +
  dgemm_calls :: "'a dgemm_args list"

text \<open>The handler \<^verbatim>\<open>catch (const std::exception& ex)\<close>: the message on \<^verbatim>\<open>std::cerr\<close>, exit
  code 2. \<open>calls\<close> are the external calls made before the exception was thrown.\<close>

definition failure :: "error \<Rightarrow> 'a dgemm_args list \<Rightarrow> 'a outcome" where
  "failure e calls =
     \<lparr>exit_code = 2, cout = [], cerr = ''Error: '' @ what e @ ''\<newline>'',
      files_written = [], dgemm_calls = calls\<rparr>"

text \<open>\<^verbatim>\<open>main(argc, argv)\<close>: \<open>prog\<close> is \<^verbatim>\<open>argv[0]\<close> and \<open>args\<close> the arguments after it, so
  \<^verbatim>\<open>argc\<close> is \<open>1 + length args\<close>.\<close>

definition matmul_main ::
  "('s, 'a::comm_semiring_1) iolib \<Rightarrow> 's world \<Rightarrow> string \<Rightarrow> string list \<Rightarrow> 'a outcome"
where
  "matmul_main L W prog args =
     (if 1 + length args \<noteq> 3 then
        \<lparr>exit_code = 1, cout = [],
         cerr = ''Uso: '' @ prog @ '' <input.txt> <output.txt>\<newline>'',
         files_written = [], dgemm_calls = []\<rparr>
      else
        let in_path = args ! 0; out_path = args ! 1 in
        case open_in W in_path of
          None \<Rightarrow> failure (CannotOpenInput in_path) []
        | Some fin \<Rightarrow>
            (case read_dims L fin of
               None \<Rightarrow> failure InvalidDimensions []
             | Some (m, n, l, fin1) \<Rightarrow>
                 if sint m \<le> 0 \<or> sint n \<le> 0 \<or> sint l \<le> 0 then failure InvalidDimensions []
                 else
                   (case read_matrix_row_major L fin1 (nat (sint m)) (nat (sint n)) ''A'' of
                      Inl e \<Rightarrow> failure e []
                    | Inr (A_rm, fin2) \<Rightarrow>
                        (case read_matrix_row_major L fin2 (nat (sint n)) (nat (sint l)) ''B'' of
                           Inl e \<Rightarrow> failure e []
                         | Inr (B_rm, fin3) \<Rightarrow>
                             let A = to_col_major A_rm (nat (sint m)) (nat (sint n));
                                 B = to_col_major B_rm (nat (sint n)) (nat (sint l));
                                 C = replicate (nat (sint m) * nat (sint l)) 0;
                                 call = \<lparr>transa = CHR ''N'', transb = CHR ''N'',
                                         dim_m = sint m, dim_n = sint l, dim_k = sint n,
                                         alpha = 1, mat_a = A, lda = sint m,
                                         mat_b = B, ldb = sint n,
                                         beta = 0, mat_c = C, ldc = sint m\<rparr>;
                                 C_rm = to_row_major (dgemm call) (nat (sint m)) (nat (sint l))
                             in
                               if \<not> can_open_out W out_path
                               then failure (CannotOpenOutput out_path) [call]
                               else
                                 \<lparr>exit_code = 0,
                                  cout = ''OK: C = A*B con DGEMM. Dimensiones: ('' @
                                         to_string (sint m) @ ''x'' @ to_string (sint l) @
                                         '')\<newline>'',
                                  cerr = [],
                                  files_written =
                                    [(out_path,
                                      buf (write_matrix_row_major L C_rm (nat (sint m))
                                             (nat (sint l)) ostream_init))],
                                  dgemm_calls = [call]\<rparr>))))"

section \<open>The drivers around LAPACK: decomposition and fits\<close>

text \<open>The three drivers have their data in the source, call one LAPACK routine and test the
  status it returns. The routines are external: each is a parameter of its driver, given
  the arguments of the call and returning the status with the buffers the driver reads
  afterwards. Buffers a routine overwrites and the driver never reads again are not
  returned. The integer constants are those of the C headers
  (\<^verbatim>\<open>LAPACK_ROW_MAJOR\<close>, \<^verbatim>\<open>CblasTrans\<close>, ...), which the repository does not contain; the
  drivers only pass them on.\<close>

definition LAPACK_ROW_MAJOR :: int where "LAPACK_ROW_MAJOR = 101"
definition LAPACK_COL_MAJOR :: int where "LAPACK_COL_MAJOR = 102"
definition CblasColMajor :: int where "CblasColMajor = 102"
definition CblasNoTrans :: int where "CblasNoTrans = 111"
definition CblasTrans :: int where "CblasTrans = 112"

text \<open>The failures of the three drivers, one constructor for each place of the source that
  reports one: the single test \<^verbatim>\<open>info != 0\<close> of the decomposition, the tests
  \<^verbatim>\<open>info < 0\<close> and \<^verbatim>\<open>info > 0\<close> of the fits, and the file of the quadratic fit that
  cannot be created.\<close>

datatype lapack_failure =
  NonzeroStatus int
  | IllegalArgument int
  | NumericFailure int
  | CannotCreate string

subsection \<open>Singular value decomposition of a 2x2 matrix\<close>

text \<open>The matrix of the source, row-major; \<^verbatim>\<open>-0.8\<close> is the fraction it denotes.\<close>

definition svd_A :: "'a::field list" where
  "svd_A = [1, - (8 / 10), 0, 1]"

record 'a dgesvd_result =
  svd_info :: int
  svd_S :: "'a list"
  svd_U :: "'a list"
  svd_VT :: "'a list"

text \<open>\<^verbatim>\<open>LAPACKE_dgesvd(matrix_layout, jobu, jobvt, m, n, a, lda, s, u, ldu, vt, ldvt, superb)\<close>:
  the arguments that go in, and the status with \<open>S\<close>, \<open>U\<close> and \<open>V^T\<close> that come out.\<close>

type_synonym 'a dgesvd =
  "int \<Rightarrow> char \<Rightarrow> char \<Rightarrow> int \<Rightarrow> int \<Rightarrow> 'a list \<Rightarrow> int \<Rightarrow> int \<Rightarrow> int \<Rightarrow> 'a dgesvd_result"

definition svd_call :: "'a::field dgesvd \<Rightarrow> 'a dgesvd_result" where
  "svd_call dgesvd =
     (let m = 2; n = 2; lda = n
      in dgesvd LAPACK_ROW_MAJOR CHR ''A'' CHR ''A'' m n svd_A lda m n)"

text \<open>Lines 37 to 40: any status but 0 is an error.\<close>

definition svd_check :: "int \<Rightarrow> lapack_failure option" where
  "svd_check info = (if info \<noteq> 0 then Some (NonzeroStatus info) else None)"

text \<open>The product of two row-major 2x2 matrices, as the two loop nests of lines 70 to 90
  compute it (first \<open>U * Sigma\<close>, then \<open>US * V^T\<close>).\<close>

definition mul2x2 :: "'a::semiring_0 list \<Rightarrow> 'a list \<Rightarrow> 'a list" where
  "mul2x2 X Y =
     fold (\<lambda>i. fold (\<lambda>j Z.
             Z[i * 2 + j := fold (\<lambda>k sum. sum + X ! (i * 2 + k) * Y ! (k * 2 + j)) [0..<2] 0])
           [0..<2])
       [0..<2] [0, 0, 0, 0]"

definition svd_reconstruct :: "'a::semiring_0 list \<Rightarrow> 'a list \<Rightarrow> 'a list \<Rightarrow> 'a list" where
  "svd_reconstruct S U VT =
     (let Sigma = ([0, 0, 0, 0][0 := S ! 0])[3 := S ! 1];
          US = mul2x2 U Sigma
      in mul2x2 US VT)"

text \<open>Lines 105 to 109: the running maximum of the absolute differences.\<close>

definition max_abs_diff :: "'a::linordered_idom list \<Rightarrow> 'a list \<Rightarrow> 'a" where
  "max_abs_diff A_rec A_orig =
     fold (\<lambda>i max_err.
             let diff = \<bar>A_rec ! i - A_orig ! i\<bar>
             in if diff > max_err then diff else max_err)
       [0..<4] 0"

text \<open>A matrix on the console: every element in a field of width 14, followed by a space.\<close>

definition print_matrix ::
  "('s, 'a) iolib \<Rightarrow> 'a list \<Rightarrow> nat \<Rightarrow> nat \<Rightarrow> nat \<Rightarrow> ostream \<Rightarrow> ostream"
where
  "print_matrix L X rows cols stride =
     fold (\<lambda>i. seq [fold (\<lambda>j. seq [setw 14, put_dbl L (X ! (i * stride + j)), put_str '' ''])
                       [0..<cols],
                     put_str ''\<newline>''])
       [0..<rows]"

text \<open>Lines 42 to 110: what the driver prints once the status is 0.\<close>

definition svd_report :: "('s, 'a::linordered_field) iolib \<Rightarrow> 'a dgesvd_result \<Rightarrow> ostream" where
  "svd_report L r =
     (let S = svd_S r; U = svd_U r; VT = svd_VT r;
          A_rec = svd_reconstruct S U VT;
          A_orig = svd_A;
          max_err = max_abs_diff A_rec A_orig
      in seq [std_fixed, setprecision 8,
              put_str ''Valores singulares S:\<newline>'',
              fold (\<lambda>i. seq [put_str ''  S['', put_int (int i), put_str ''] = '',
                              put_dbl L (S ! i), put_str ''\<newline>''])
                [0..<2],
              put_str ''\<newline>Matriz U (2x2):\<newline>'',
              print_matrix L U 2 2 2,
              put_str ''\<newline>Matriz V^T (2x2):\<newline>'',
              print_matrix L VT 2 2 2,
              put_str ''\<newline>A reconstruida (U * Sigma * V^T):\<newline>'',
              print_matrix L A_rec 2 2 2,
              put_str (''\<newline>Error m'' @ [CHR 0xC3, CHR 0xA1] @ ''ximo |A_rec - A_orig| = ''),
              put_dbl L max_err, put_str ''\<newline>'']
           ostream_init)"

definition svd_main :: "('s, 'a::linordered_field) iolib \<Rightarrow> 'a dgesvd \<Rightarrow> process" where
  "svd_main L dgesvd =
     (let r = svd_call dgesvd; info = svd_info r
      in case svd_check info of
           Some e \<Rightarrow>
             \<lparr>exit_code = 1, cout = [],
              cerr = ''Error en dgesvd, info = '' @ to_string info @ ''\<newline>'',
              files_written = []\<rparr>
         | None \<Rightarrow>
             \<lparr>exit_code = 0, cout = buf (svd_report L r), cerr = [], files_written = []\<rparr>)"

subsection \<open>The two fits\<close>

text \<open>The handler of both fits: the message after \<^verbatim>\<open>Error: \<close> on \<^verbatim>\<open>std::cerr\<close>, exit code 1.
  \<open>printed\<close> is what the run had written to \<^verbatim>\<open>std::cout\<close> before the exception.\<close>

definition fit_failure :: "string \<Rightarrow> string \<Rightarrow> process" where
  "fit_failure msg printed =
     \<lparr>exit_code = 1, cout = printed, cerr = ''Error: '' @ msg @ ''\<newline>'', files_written = []\<rparr>"

text \<open>The loop over the sample points of both fits, \<open>fit_row\<close> being its body: it prints one
  line per point and adds the squared error to \<open>sse\<close>. \<open>predict\<close> is the fitted model, \<open>a * x + b\<close> in the linear
  driver (lines 139 to 146) and \<open>a * x * x + b * x + c\<close> in the quadratic one (lines 110 to
  122).\<close>

definition fit_row ::
  "('s, 'a::field) iolib \<Rightarrow> 'a list \<Rightarrow> 'a list \<Rightarrow> ('a \<Rightarrow> 'a) \<Rightarrow> nat \<Rightarrow> 'a \<times> ostream \<Rightarrow>
   'a \<times> ostream"
where
  "fit_row L x y predict i =
     (\<lambda>(sse, out).
        let y_hat = predict (x ! i);
            err = y_hat - y ! i
        in (sse + err * err,
            seq [put_str ''x='', put_dbl L (x ! i), put_str ''  y='', put_dbl L (y ! i),
                 put_str ''  y_hat='', put_dbl L y_hat, put_str ''  err='', put_dbl L err,
                 put_str ''\<newline>''] out))"

definition fit_table ::
  "('s, 'a::field) iolib \<Rightarrow> 'a list \<Rightarrow> 'a list \<Rightarrow> ('a \<Rightarrow> 'a) \<Rightarrow> 'a \<times> ostream \<Rightarrow> 'a \<times> ostream"
where
  "fit_table L x y predict = fold (fit_row L x y predict) [0..<length x]"

text \<open>The end of both reports: \<^verbatim>\<open>SSE\<close>, and \<^verbatim>\<open>MSE = sse / m\<close> for \<open>m\<close> samples.\<close>

definition fit_summary :: "('s, 'a::field) iolib \<Rightarrow> 'a \<Rightarrow> nat \<Rightarrow> ostream \<Rightarrow> ostream" where
  "fit_summary L sse m =
     seq [put_str ''\<newline>SSE = '', put_dbl L sse, put_str ''\<newline>'',
          put_str ''MSE = '', put_dbl L (sse / of_nat m), put_str ''\<newline>'']"

subsection \<open>Linear fit by the normal equations (main-ecnormal-modelo-lineal.cpp)\<close>

definition lineal_x :: "'a::field list" where "lineal_x = [1, 2, 3, 4]"
definition lineal_y :: "'a::field list" where "lineal_y = [2, 2, 4, 5]"

text \<open>The three external routines of the driver. \<^verbatim>\<open>cblas_dgemm\<close> and \<^verbatim>\<open>cblas_dgemv\<close> return the
  buffer they write; \<^verbatim>\<open>LAPACKE_dgesv\<close> returns the status and the right-hand side, which it
  overwrites with the solution.\<close>

record 'a lineal_lib =
  cblas_dgemm ::
    "int \<Rightarrow> int \<Rightarrow> int \<Rightarrow> int \<Rightarrow> int \<Rightarrow> int \<Rightarrow> 'a \<Rightarrow> 'a list \<Rightarrow> int \<Rightarrow> 'a list \<Rightarrow> int \<Rightarrow> 'a \<Rightarrow>
     'a list \<Rightarrow> int \<Rightarrow> 'a list"
  cblas_dgemv ::
    "int \<Rightarrow> int \<Rightarrow> int \<Rightarrow> int \<Rightarrow> 'a \<Rightarrow> 'a list \<Rightarrow> int \<Rightarrow> 'a list \<Rightarrow> int \<Rightarrow> 'a \<Rightarrow> 'a list \<Rightarrow> int \<Rightarrow>
     'a list"
  LAPACKE_dgesv ::
    "int \<Rightarrow> int \<Rightarrow> int \<Rightarrow> 'a list \<Rightarrow> int \<Rightarrow> 'a list \<Rightarrow> int \<Rightarrow> int \<times> 'a list"

text \<open>Steps 0 to 3 of the driver: the design matrix, the normal equations, the solve. The
  result is the status and \<open>theta\<close>.\<close>

definition lineal_solve :: "'a::field lineal_lib \<Rightarrow> int \<times> 'a list" where
  "lineal_solve B =
     (let x = lineal_x; y_rm = lineal_y;
          m = length x; n = 2;
          A = fold (\<lambda>i A. (A[0 * m + i := x ! i])[1 * m + i := 1]) [0..<m] (replicate (m * n) 0);
          y = y_rm;
          ATA = cblas_dgemm B CblasColMajor CblasTrans CblasNoTrans (int n) (int n) (int m) 1
                  A (int m) A (int m) 0 (replicate (n * n) 0) (int n);
          ATy = cblas_dgemv B CblasColMajor CblasTrans (int m) (int n) 1 A (int m) y 1 0
                  (replicate n 0) 1;
          theta = ATy
      in LAPACKE_dgesv B LAPACK_COL_MAJOR (int n) 1 ATA (int n) theta (int n))"

text \<open>Lines 119 to 124: the two tests of the status, and the message of each exception.\<close>

definition lineal_check :: "int \<Rightarrow> lapack_failure option" where
  "lineal_check info =
     (if info < 0 then Some (IllegalArgument (- info))
      else if info > 0 then Some (NumericFailure info)
      else None)"

fun lineal_what :: "lapack_failure \<Rightarrow> string" where
  "lineal_what (IllegalArgument pos) =
     ''LAPACKE_dgesv: argumento ilegal en posici'' @ [CHR 0xC3, CHR 0xB3] @ ''n '' @
     to_string pos"
| "lineal_what (NumericFailure info) =
     ''LAPACKE_dgesv: matriz singular; no se pudo resolver (info='' @ to_string info @ '')''"

text \<open>Step 4, lines 126 to 148: the report for the solution \<open>theta\<close>.\<close>

definition lineal_report :: "('s, 'a::field) iolib \<Rightarrow> 'a list \<Rightarrow> ostream" where
  "lineal_report L theta =
     (let x = lineal_x; y = lineal_y; m = length x;
          a = theta ! 0; b = theta ! 1;
          out = seq [std_fixed, setprecision 10,
                     put_str ''Recta de mejor ajuste (ecuacion normal):\<newline>'',
                     put_str ''y = a*x + b\<newline>'',
                     put_str ''a = '', put_dbl L a, put_str ''\<newline>'',
                     put_str ''b = '', put_dbl L b, put_str ''\<newline>\<newline>'',
                     put_str ''Puntos y prediccion:\<newline>'']
                  ostream_init;
          (sse, out) = fit_table L x y (\<lambda>xi. a * xi + b) (0, out)
      in fit_summary L sse m out)"

definition lineal_main :: "('s, 'a::field) iolib \<Rightarrow> 'a lineal_lib \<Rightarrow> process" where
  "lineal_main L B =
     (let (info, theta) = lineal_solve B
      in case lineal_check info of
           Some e \<Rightarrow> fit_failure (lineal_what e) []
         | None \<Rightarrow>
             \<lparr>exit_code = 0, cout = buf (lineal_report L theta), cerr = [],
              files_written = []\<rparr>)"

subsection \<open>Quadratic fit by least squares (main-ecnormal-modelo-cuadratico.cpp)\<close>

definition cuadratico_x :: "'a::field list" where
  "cuadratico_x = [0, 1, 2, 3, 4, 5]"

definition cuadratico_y :: "'a::field list" where
  "cuadratico_y = [12 / 10, 2, 29 / 10, 41 / 10, 58 / 10, 82 / 10]"

text \<open>\<^verbatim>\<open>LAPACKE_dgels(matrix_layout, trans, m, n, nrhs, a, lda, b, ldb)\<close>: the status and the
  buffer \<open>B\<close>, whose first \<open>n\<close> entries are the solution.\<close>

type_synonym 'a dgels =
  "int \<Rightarrow> char \<Rightarrow> int \<Rightarrow> int \<Rightarrow> int \<Rightarrow> 'a list \<Rightarrow> int \<Rightarrow> 'a list \<Rightarrow> int \<Rightarrow> int \<times> 'a list"

definition cuadratico_solve :: "'a::field dgels \<Rightarrow> int \<times> 'a list" where
  "cuadratico_solve dgels =
     (let x = cuadratico_x; y = cuadratico_y;
          m = length x; n = 3; nrhs = 1;
          A = fold (\<lambda>i A. let xi = x ! i
                           in ((A[0 * m + i := xi * xi])[1 * m + i := xi])[2 * m + i := 1])
                [0..<m] (replicate (m * n) 0);
          ldb = max m n;
          B = fold (\<lambda>i B. B[i := y ! i]) [0..<m] (replicate (ldb * nrhs) 0)
      in dgels LAPACK_COL_MAJOR CHR ''N'' (int m) (int n) (int nrhs) A (int m) B (int ldb))"

text \<open>Lines 88 to 93, and the exception of line 150 for the file that cannot be created.\<close>

definition cuadratico_check :: "int \<Rightarrow> lapack_failure option" where
  "cuadratico_check info =
     (if info < 0 then Some (IllegalArgument (- info))
      else if info > 0 then Some (NumericFailure info)
      else None)"

fun cuadratico_what :: "lapack_failure \<Rightarrow> string" where
  "cuadratico_what (IllegalArgument pos) =
     ''LAPACKE_dgels: argumento ilegal en posicion '' @ to_string pos"
| "cuadratico_what (NumericFailure info) =
     ''LAPACKE_dgels: fallo num'' @ [CHR 0xC3, CHR 0xA9] @ ''rico (info='' @ to_string info @ '')''"
| "cuadratico_what (CannotCreate path) = ''No se pudo crear '' @ path"

text \<open>The file \<^verbatim>\<open>fit.csv\<close>: a header and 200 lines, the sample points on the first six.\<close>

definition fit_csv :: "('s, 'a::field) iolib \<Rightarrow> 'a \<Rightarrow> 'a \<Rightarrow> 'a \<Rightarrow> ostream \<Rightarrow> ostream" where
  "fit_csv L a b c =
     (let x = cuadratico_x; y = cuadratico_y;
          steps = 200; xmin = hd x; xmax = last x
      in seq [put_str ''x_pts,y_pts,x_fit,y_fit\<newline>'',
              fold (\<lambda>i. let t = of_nat i / of_nat (steps - 1);
                             xf = xmin + t * (xmax - xmin);
                             yf = a * xf * xf + b * xf + c
                         in seq [if i < length x
                                 then seq [put_dbl L (x ! i), put_str '','',
                                           put_dbl L (y ! i), put_str '','']
                                 else put_str '',,'',
                                 put_dbl L xf, put_str '','', put_dbl L yf, put_str ''\<newline>''])
                [0..<steps]])"

definition octave_tip :: string where
  \<open>octave_tip =
     ''Octave (ejemplo):\<newline>'' @
     ''  data = csvread("fit.csv", 1, 0);\<newline>'' @
     ''  x_pts = data(:,1);\<newline>'' @
     ''  y_pts = data(:,2);\<newline>'' @
     ''  x_fit = data(:,3);\<newline>'' @
     ''  y_fit = data(:,4);\<newline>'' @
     ''  plot(x_pts, y_pts, "o"); hold on;\<newline>'' @
     ''  plot(x_fit, y_fit, "-");\<newline>'' @
     ''  grid on;\<newline>'' @
     ''  xlabel("x");\<newline>'' @
     ''  ylabel("y");\<newline>'' @
     ''  title("Ajuste cuadratico");\<newline>'' @
     ''  legend("Datos", "Ajuste");\<newline>''\<close>

text \<open>Step 5, lines 95 to 125: the report for the solution in \<open>B\<close>.\<close>

definition cuadratico_report :: "('s, 'a::field) iolib \<Rightarrow> 'a list \<Rightarrow> ostream" where
  "cuadratico_report L B =
     (let x = cuadratico_x; y = cuadratico_y; m = length x;
          a = B ! 0; b = B ! 1; c = B ! 2;
          out = seq [std_fixed, setprecision 10,
                     put_str ''Modelo cuadratico (minimos cuadrados con DGELS/QR):\<newline>'',
                     put_str ''y = a*x^2 + b*x + c\<newline>'',
                     put_str ''a = '', put_dbl L a, put_str ''\<newline>'',
                     put_str ''b = '', put_dbl L b, put_str ''\<newline>'',
                     put_str ''c = '', put_dbl L c, put_str ''\<newline>\<newline>'',
                     put_str ''Puntos y prediccion:\<newline>'']
                  ostream_init;
          (sse, out) = fit_table L x y (\<lambda>xi. a * xi * xi + b * xi + c) (0, out)
      in fit_summary L sse m out)"

definition cuadratico_main ::
  "('s, 'a::field) iolib \<Rightarrow> 'a dgels \<Rightarrow> (string \<Rightarrow> bool) \<Rightarrow> process"
where
  "cuadratico_main L dgels can_create =
     (let (info, B) = cuadratico_solve dgels
      in case cuadratico_check info of
           Some e \<Rightarrow> fit_failure (cuadratico_what e) []
         | None \<Rightarrow>
             let out = cuadratico_report L B
             in if \<not> can_create ''fit.csv''
                then fit_failure (cuadratico_what (CannotCreate ''fit.csv'')) (buf out)
                else
                  \<lparr>exit_code = 0,
                   cout = buf (seq [put_str ''\<newline>Se genero fit.csv para graficar (puntos y curva).\<newline>'',
                                    put_str octave_tip] out),
                   cerr = [],
                   files_written =
                     [(''fit.csv'', buf (fit_csv L (B ! 0) (B ! 1) (B ! 2) ostream_init))]\<rparr>)"

subsection \<open>Stand-ins for the routines, for running the drivers\<close>

text \<open>An instance of \<open>iolib\<close> on rational numbers, which writes a number as numerator and
  denominator whatever the float field and the precision, and routines that return a
  given status and buffer. They serve to evaluate the drivers; no general result depends
  on them.\<close>

definition frac_lib :: "(string, rat) iolib" where
  "frac_lib =
     \<lparr>get_int = (\<lambda>s. None), get_double = (\<lambda>s. None),
      put_double = (\<lambda>f p v. case quotient_of v of (k, d) \<Rightarrow> to_string k @ ''/'' @ to_string d)\<rparr>"

definition dgesvd_returning :: "int \<Rightarrow> rat list \<Rightarrow> rat list \<Rightarrow> rat list \<Rightarrow> rat dgesvd" where
  "dgesvd_returning info S U VT =
     (\<lambda>layout jobu jobvt m n a lda ldu ldvt.
        \<lparr>svd_info = info, svd_S = S, svd_U = U, svd_VT = VT\<rparr>)"

definition lineal_returning :: "int \<Rightarrow> rat list \<Rightarrow> rat lineal_lib" where
  "lineal_returning info theta =
     \<lparr>cblas_dgemm = (\<lambda>layout ta tb m n k alpha a lda b ldb beta c ldc. c),
      cblas_dgemv = (\<lambda>layout ta m n alpha a lda x incx beta y incy. y),
      LAPACKE_dgesv = (\<lambda>layout n nrhs a lda b ldb. (info, theta))\<rparr>"

definition dgels_returning :: "int \<Rightarrow> rat list \<Rightarrow> rat dgels" where
  "dgels_returning info B = (\<lambda>layout trans m n nrhs a lda b ldb. (info, B))"

subsection \<open>Reading a run of entries\<close>



subsection \<open>The call the driver makes\<close>

text \<open>The arguments the driver passes to \<^verbatim>\<open>dgemm_\<close> (lines 114 to 133 of the source) for a
  row-major \<open>r\<close> by \<open>q\<close> matrix \<open>A_rm\<close> and a \<open>q\<close> by \<open>c\<close> matrix \<open>B_rm\<close>; lemma
  \<open>matmul_main_success\<close> shows that this is the call of \<open>matmul_main\<close>.\<close>

definition driver_call :: "nat \<Rightarrow> nat \<Rightarrow> nat \<Rightarrow> 'a::comm_semiring_1 list \<Rightarrow> 'a list \<Rightarrow> 'a dgemm_args" where
  "driver_call r q c A_rm B_rm =
     \<lparr>transa = CHR ''N'', transb = CHR ''N'',
      dim_m = int r, dim_n = int c, dim_k = int q,
      alpha = 1, mat_a = to_col_major A_rm r q, lda = int r,
      mat_b = to_col_major B_rm q c, ldb = int q,
      beta = 0, mat_c = replicate (r * c) 0, ldc = int r\<rparr>"

text \<open>The \<open>q\<close> by \<open>q\<close> identity matrix, row-major.\<close>

definition identity_rm :: "nat \<Rightarrow> 'a::zero_neq_one list" where
  "identity_rm q = map (\<lambda>p. if p div q = p mod q then 1 else 0) [0..<q * q]"

text \<open>Lines of text joined by single spaces: the shape of one row of the output file.\<close>

fun join_spaces :: "string list \<Rightarrow> string" where
  "join_spaces [] = []"
| "join_spaces [x] = x"
| "join_spaces (x # y # ys) = x @ '' '' @ join_spaces (y # ys)"

text \<open>A matrix laid out as text, one row per line.\<close>

definition matrix_text :: "int list list \<Rightarrow> string" where
  "matrix_text rows = concat (map (\<lambda>row. join_spaces (map to_string row) @ ''\<newline>'') rows)"

section \<open>A small text stream, for running the drivers on concrete files\<close>

text \<open>An instance of \<open>iolib\<close> on which the model can be evaluated. The stream is the text
  that is left to read. An extraction skips white space and reads an optionally signed
  run of decimal digits; \<open>get_int\<close> fails outside the range of a 32-bit \<^verbatim>\<open>int\<close>. A
  \<^verbatim>\<open>double\<close> is an integer here, read by the same lexer and written as its decimal
  digits: what the C++ library does on files whose entries are integers of at most 17
  digits. No general result depends on this instance.\<close>

definition is_space :: "char \<Rightarrow> bool" where
  "is_space c = (c \<in> set [CHR '' '', CHR 0x09, CHR 0x0A, CHR 0x0B, CHR 0x0C, CHR 0x0D])"

definition is_digit :: "char \<Rightarrow> bool" where
  "is_digit c = (c \<in> set ''0123456789'')"

definition digits_value :: "string \<Rightarrow> nat" where
  "digits_value ds = foldl (\<lambda>acc c. 10 * acc + (of_char c - 48)) 0 ds"

definition lex_int :: "string \<Rightarrow> (int \<times> string) option" where
  "lex_int s =
     (let s1 = dropWhile is_space s;
          neg = (s1 \<noteq> [] \<and> hd s1 = CHR ''-'');
          s2 = (if s1 \<noteq> [] \<and> (hd s1 = CHR ''-'' \<or> hd s1 = CHR ''+'') then tl s1 else s1);
          ds = takeWhile is_digit s2
      in if ds = [] then None
         else Some (if neg then - int (digits_value ds) else int (digits_value ds),
                    dropWhile is_digit s2))"

definition text_lib :: "(string, int) iolib" where
  "text_lib =
     \<lparr>get_int = (\<lambda>s. case lex_int s of
                        None \<Rightarrow> None
                      | Some (k, r) \<Rightarrow>
                          if - (2 ^ 31) \<le> k \<and> k < 2 ^ 31 then Some (word_of_int k, r) else None),
      get_double = lex_int,
      put_double = (\<lambda>f p k. to_string k)\<rparr>"

text \<open>A file system with one readable file, \<^verbatim>\<open>input.txt\<close>, of the given content, in which
  \<^verbatim>\<open>output.txt\<close> can be created.\<close>

definition text_world :: "string \<Rightarrow> string world" where
  "text_world content =
     \<lparr>open_in = (\<lambda>p. if p = ''input.txt'' then Some content else None),
      can_open_out = (\<lambda>p. p = ''output.txt'')\<rparr>"

text \<open>The 2x3 by 3x2 scenario of the specification.\<close>

definition scenario_input :: string where
  "scenario_input = ''2 3 2\<newline>1 2 3\<newline>1 1 1\<newline>2 3\<newline>3 4\<newline>5 6\<newline>''"

text \<open>A 2x2 matrix followed by the 2x2 identity.\<close>

definition identity_input :: string where
  "identity_input = ''2 2 2\<newline>7 8\<newline>9 10\<newline>1 0\<newline>0 1\<newline>''"

text \<open>The call of the driver on the scenario.\<close>

definition scenario_call :: "int dgemm_args" where
  "scenario_call = driver_call 2 3 2 [1, 2, 3, 1, 1, 1] [2, 3, 3, 4, 5, 6]"

text \<open>A file whose matrices do not fit each other: \<open>A\<close> is laid out with four columns, \<open>B\<close>
  with three rows, under a header that announces \<open>2 3 2\<close>.\<close>

definition mismatch_A :: "int list list" where
  "mismatch_A = [[1, 2, 3, 4], [5, 6, 7, 8]]"

definition mismatch_B :: "int list list" where
  "mismatch_B = [[1, 2], [3, 4], [5, 6]]"

definition mismatch_input :: string where
  "mismatch_input = ''2 3 2\<newline>'' @ matrix_text mismatch_A @ matrix_text mismatch_B"


definition zero_dim_input :: string where
  "zero_dim_input = ''0 3 2\<newline>1 2 3''"

section \<open>Layout adapter: every element lands on its transposed offset\<close>

lemma fold_upd_length:
  "length (fold (\<lambda>x cm. cm[f x := h x (cm ! f x)]) xs cm) = length cm"
  by (induction xs arbitrary: cm) simp_all

lemma fold_upd_other:
  "k \<notin> f ` set xs \<Longrightarrow> fold (\<lambda>x cm. cm[f x := h x (cm ! f x)]) xs cm ! k = cm ! k"
  by (induction xs arbitrary: cm) auto

lemma fold_upd_nth:
  "distinct (map f xs) \<Longrightarrow> x \<in> set xs \<Longrightarrow> f x < length cm \<Longrightarrow>
   fold (\<lambda>x cm. cm[f x := h x (cm ! f x)]) xs cm ! f x = h x (cm ! f x)"
proof (induction xs arbitrary: cm)
  case Nil
  then show ?case by simp
next
  case (Cons y ys)
  let ?cm = "cm[f y := h y (cm ! f y)]"
  show ?case
  proof (cases "x = y")
    case True
    from Cons.prems have "f y \<notin> f ` set ys" by auto
    then have "fold (\<lambda>x cm. cm[f x := h x (cm ! f x)]) ys ?cm ! f y = ?cm ! f y"
      by (rule fold_upd_other)
    with True Cons.prems show ?thesis by simp
  next
    case False
    with Cons.prems have x: "x \<in> set ys" and d: "distinct (map f ys)" and ne: "f x \<noteq> f y"
      by (auto simp: image_iff)
    from Cons.prems have "f x < length ?cm" by simp
    from Cons.IH [OF d x this] ne show ?thesis by simp
  qed
qed

lemma fold_nested_product:
  "fold (\<lambda>i. fold (F i) js) is = fold (\<lambda>(i, j). F i j) (List.product is js)"
proof (induction "is")
  case Nil
  show ?case by simp
next
  case (Cons i "is")
  have "fold (\<lambda>(i, j). F i j) (map (Pair i) js) = fold (F i) js"
    by (simp add: fold_map comp_def)
  with Cons show ?case by (simp add: fun_eq_iff)
qed

lemma col_index_inj:
  "inj_on (\<lambda>(i, j). j * rows + i) ({0..<rows::nat} \<times> {0..<cols::nat})"
proof (rule inj_onI, clarsimp)
  fix i j i' j' :: nat
  assume lt: "i < rows" "i' < rows" and eq: "j * rows + i = j' * rows + i'"
  from eq have "(j * rows + i) mod rows = (j' * rows + i') mod rows" by simp
  with lt have i: "i = i'" by simp
  from eq have "(j * rows + i) div rows = (j' * rows + i') div rows" by simp
  with lt have "j = j'" by simp
  with i show "i = i' \<and> j = j'" by simp
qed

lemma row_index_inj:
  "inj_on (\<lambda>(i, j). i * cols + j) ({0..<rows::nat} \<times> {0..<cols::nat})"
proof (rule inj_onI, clarsimp)
  fix i j i' j' :: nat
  assume lt: "j < cols" "j' < cols" and eq: "i * cols + j = i' * cols + j'"
  from eq have "(i * cols + j) mod cols = (i' * cols + j') mod cols" by simp
  with lt have j: "j = j'" by simp
  from eq have "(i * cols + j) div cols = (i' * cols + j') div cols" by simp
  with lt have "i = i'" by simp
  with j show "i = i' \<and> j = j'" by simp
qed

lemma col_index_bound: "i < rows \<Longrightarrow> j < cols \<Longrightarrow> j * rows + i < rows * (cols::nat)"
proof -
  assume i: "i < rows" and j: "j < cols"
  have "j * rows + i < j * rows + rows" using i by simp
  also have "\<dots> = Suc j * rows" by simp
  also have "\<dots> \<le> cols * rows" using j by (intro mult_le_mono1) simp
  finally show ?thesis by (simp add: mult.commute)
qed

lemma row_index_bound: "i < rows \<Longrightarrow> j < cols \<Longrightarrow> i * cols + j < rows * (cols::nat)"
  using col_index_bound [of j cols i rows] by (simp add: mult.commute)

lemma to_col_major_length: "length (to_col_major rm rows cols) = rows * cols"
  unfolding to_col_major_def fold_nested_product
  using fold_upd_length [of "\<lambda>(i, j). j * rows + i" "\<lambda>(i, j) _. rm ! (i * cols + j)"]
  by (simp add: case_prod_unfold)

lemma to_col_major_nth:
  assumes "i < rows" "j < cols"
  shows "to_col_major rm rows cols ! (j * rows + i) = rm ! (i * cols + j)"
proof -
  let ?f = "\<lambda>(i, j). j * rows + i"
  let ?h = "\<lambda>(i, j) (_::'a). rm ! (i * cols + j)"
  let ?ps = "List.product [0..<rows] [0..<cols]"
  have d: "distinct (map ?f ?ps)"
    by (simp add: distinct_map distinct_product col_index_inj)
  have m: "(i, j) \<in> set ?ps" using assms by simp
  have b: "?f (i, j) < length (replicate (rows * cols) (0::'a))"
    using assms by (simp add: col_index_bound)
  have "to_col_major rm rows cols =
        fold (\<lambda>x cm. cm[?f x := ?h x (cm ! ?f x)]) ?ps (replicate (rows * cols) 0)"
    unfolding to_col_major_def fold_nested_product by (simp add: case_prod_unfold)
  with fold_upd_nth [of ?f ?ps "(i, j)" _ ?h, OF d m b] show ?thesis by simp
qed

lemma to_row_major_length: "length (to_row_major cm rows cols) = rows * cols"
  unfolding to_row_major_def fold_nested_product
  using fold_upd_length [of "\<lambda>(i, j). i * cols + j" "\<lambda>(i, j) _. cm ! (j * rows + i)"]
  by (simp add: case_prod_unfold)

lemma to_row_major_nth:
  assumes "i < rows" "j < cols"
  shows "to_row_major cm rows cols ! (i * cols + j) = cm ! (j * rows + i)"
proof -
  let ?f = "\<lambda>(i, j). i * cols + j"
  let ?h = "\<lambda>(i, j) (_::'a). cm ! (j * rows + i)"
  let ?ps = "List.product [0..<rows] [0..<cols]"
  have d: "distinct (map ?f ?ps)"
    by (simp add: distinct_map distinct_product row_index_inj)
  have m: "(i, j) \<in> set ?ps" using assms by simp
  have b: "?f (i, j) < length (replicate (rows * cols) (0::'a))"
    using assms by (simp add: row_index_bound)
  have "to_row_major cm rows cols =
        fold (\<lambda>x rm. rm[?f x := ?h x (rm ! ?f x)]) ?ps (replicate (rows * cols) 0)"
    unfolding to_row_major_def fold_nested_product by (simp add: case_prod_unfold)
  with fold_upd_nth [of ?f ?ps "(i, j)" _ ?h, OF d m b] show ?thesis by simp
qed

lemma row_major_eqI:
  assumes "length xs = rows * cols" "length ys = rows * cols"
    and "\<And>i j. i < rows \<Longrightarrow> j < cols \<Longrightarrow> xs ! (i * cols + j) = ys ! (i * cols + j)"
  shows "xs = ys"
proof (rule nth_equalityI)
  show "length xs = length ys" using assms by simp
next
  fix k assume "k < length xs"
  then have k: "k < rows * cols" using assms by simp
  then have c: "0 < cols" by (cases cols) simp_all
  have "k div cols < rows" using k by (simp add: less_mult_imp_div_less)
  moreover have "k mod cols < cols" using c by simp
  ultimately have "xs ! (k div cols * cols + k mod cols) = ys ! (k div cols * cols + k mod cols)"
    by (rule assms(3))
  then show "xs ! k = ys ! k" by simp
qed

lemma size_t_offsets_fit:
  fixes m n :: cint
  assumes "i < nat (sint m)" "j < nat (sint n)"
  shows "i * nat (sint n) + j < 2 ^ 64"
proof -
  have m: "sint m < 2 ^ 31" and n: "sint n < 2 ^ 31"
    using sint_lt [of m] sint_lt [of n] by simp_all
  from m have "nat (sint m) \<le> 2 ^ 31" by simp
  moreover from n have "nat (sint n) \<le> 2 ^ 31" by simp
  ultimately have "nat (sint m) * nat (sint n) \<le> 2 ^ 31 * 2 ^ 31" by (rule mult_mono) simp_all
  moreover have "i * nat (sint n) + j < nat (sint m) * nat (sint n)"
    using assms by (rule row_index_bound)
  ultimately show ?thesis by simp
qed

text \<open>Claim C2. Converting a row-major matrix of \<open>r\<close> rows and \<open>c\<close> columns to column-major and
  back gives the matrix itself, element for element. The adapters are polymorphic in the
  element type: they cannot compute with an element, only copy it, so the equality is
  that of the stored values. The only hypothesis is that the buffer has \<open>r * c\<close> elements;
  \<open>r > 0\<close> and \<open>c > 0\<close> are not needed.\<close>

theorem layout_round_trip:
  assumes "length M = r * c"
  shows "to_row_major (to_col_major M r c) r c = M"
proof (rule row_major_eqI [of _ r c])
  show "length (to_row_major (to_col_major M r c) r c) = r * c"
    by (rule to_row_major_length)
  show "length M = r * c" by (rule assms)
next
  fix i j assume "i < r" "j < c"
  then show "to_row_major (to_col_major M r c) r c ! (i * c + j) = M ! (i * c + j)"
    by (simp add: to_row_major_nth to_col_major_nth)
qed

theorem layout_round_trip_witness:
  "length [1, 2, 3, 4, 5, 6 :: int] = 2 * 3 \<and>
   to_row_major (to_col_major [1, 2, 3, 4, 5, 6 :: int] 2 3) 2 3 = [1, 2, 3, 4, 5, 6]"
proof -
  have h: "length [1, 2, 3, 4, 5, 6 :: int] = 2 * 3" by simp
  show ?thesis by (rule conjI [OF h layout_round_trip [OF h]])
qed

section \<open>Input reader: a run of entries, or the position of the first failure\<close>











lemma read_row_length:
  "read_row L name cols i js (M, s) = Inr (M', s') \<Longrightarrow> length M' = length M"
  by (induction js arbitrary: M s) (auto split: option.splits)

lemma read_rows_length:
  "read_rows L name cols is (M, s) = Inr (M', s') \<Longrightarrow> length M' = length M"
proof (induction "is" arbitrary: M s)
  case Nil
  then show ?case by simp
next
  case (Cons i "is")
  then show ?case
    by (auto split: sum.splits dest!: read_row_length)
qed

lemma read_matrix_length:
  "read_matrix_row_major L s rows cols name = Inr (M, s') \<Longrightarrow> length M = rows * cols"
  unfolding read_matrix_row_major_def by (drule read_rows_length) simp

lemma read_row_error:
  "read_row L name cols i js st = Inl e \<Longrightarrow> \<exists>j. e = MatrixReadError name i j"
  by (induction L name cols i js st rule: read_row.induct) (auto split: option.splits)

lemma read_rows_error:
  "read_rows L name cols is st = Inl e \<Longrightarrow> \<exists>i j. e = MatrixReadError name i j"
  by (induction L name cols "is" st rule: read_rows.induct)
     (auto split: sum.splits dest: read_row_error)

lemma read_matrix_error:
  "read_matrix_row_major L s rows cols name = Inl e \<Longrightarrow> \<exists>i j. e = MatrixReadError name i j"
  unfolding read_matrix_row_major_def by (rule read_rows_error)

section \<open>The dense-multiply routine as modelled\<close>

lemma ld_index_inj:
  "rows \<le> ld \<Longrightarrow> inj_on (\<lambda>(j, i). i + j * ld) ({0..<cols::nat} \<times> {0..<rows::nat})"
proof (rule inj_onI, clarsimp)
  fix i j i' j' :: nat
  assume le: "rows \<le> ld" and lt: "i < rows" "i' < rows" and eq: "i + j * ld = i' + j' * ld"
  from le lt have l: "i < ld" "i' < ld" by simp_all
  from eq have "(i + j * ld) mod ld = (i' + j' * ld) mod ld" by simp
  with l have i: "i = i'" by simp
  from eq have "(i + j * ld) div ld = (i' + j' * ld) div ld" by simp
  with l have "j = j'" by simp
  with i show "j = j' \<and> i = i'" by simp
qed

lemma ld_index_bound:
  assumes "i < rows" "j < cols" "rows \<le> ld"
  shows "i + j * ld < ld * (cols::nat)"
proof -
  have "i + j * ld < ld + j * ld" using assms by simp
  also have "\<dots> = Suc j * ld" by simp
  also have "\<dots> \<le> cols * ld" using assms by (intro mult_le_mono1) simp
  finally show ?thesis by (simp add: mult.commute)
qed

lemma dgemm_pre_nat:
  assumes "dgemm_pre c"
  shows "nat (dim_m c) \<le> nat (ldc c)"
    and "nat (ldc c) * nat (dim_n c) \<le> length (mat_c c)"
proof -
  from assms have m: "0 \<le> dim_m c" and n: "0 \<le> dim_n c" and l: "max 1 (dim_m c) \<le> ldc c"
    and b: "ldc c * dim_n c \<le> int (length (mat_c c))"
    by (simp_all add: dgemm_pre_def)
  from l show "nat (dim_m c) \<le> nat (ldc c)" by linarith
  from l have "0 \<le> ldc c" by simp
  then have "int (nat (ldc c) * nat (dim_n c)) = ldc c * dim_n c" using n by simp
  with b show "nat (ldc c) * nat (dim_n c) \<le> length (mat_c c)" by linarith
qed

lemma dgemm_as_fold:
  "dgemm_pre c \<Longrightarrow>
   dgemm c =
     fold (\<lambda>x Cm. Cm[(\<lambda>(j, i). i + j * nat (ldc c)) x :=
                       (\<lambda>(j, i) old. alpha c * dgemm_entry c i j + beta c * old) x
                         (Cm ! (\<lambda>(j, i). i + j * nat (ldc c)) x)])
       (List.product [0..<nat (dim_n c)] [0..<nat (dim_m c)]) (mat_c c)"
  unfolding dgemm_def fold_nested_product
  by (simp add: case_prod_unfold)

lemma dgemm_length: "length (dgemm c) = length (mat_c c)"
proof (cases "dgemm_pre c")
  case True
  show ?thesis unfolding dgemm_as_fold [OF True] by (rule fold_upd_length)
next
  case False
  then show ?thesis by (simp add: dgemm_def)
qed

lemma dgemm_nth:
  assumes "dgemm_pre c" "i < nat (dim_m c)" "j < nat (dim_n c)"
  shows "dgemm c ! (i + j * nat (ldc c)) =
         alpha c * dgemm_entry c i j + beta c * mat_c c ! (i + j * nat (ldc c))"
proof -
  let ?f = "\<lambda>(j, i). i + j * nat (ldc c)"
  let ?h = "\<lambda>(j, i) old. alpha c * dgemm_entry c i j + beta c * old"
  let ?ps = "List.product [0..<nat (dim_n c)] [0..<nat (dim_m c)]"
  note le = dgemm_pre_nat [OF assms(1)]
  have d: "distinct (map ?f ?ps)"
    by (simp add: distinct_map distinct_product ld_index_inj [OF le(1)])
  have m: "(j, i) \<in> set ?ps" using assms by simp
  have "i + j * nat (ldc c) < nat (ldc c) * nat (dim_n c)"
    using assms(2,3) le(1) by (rule ld_index_bound)
  with le(2) have b: "?f (j, i) < length (mat_c c)" by simp
  from fold_upd_nth [of ?f ?ps "(j, i)" "mat_c c" ?h, OF d m b]
  show ?thesis unfolding dgemm_as_fold [OF assms(1)] by simp
qed

section \<open>The pipeline computes the matrix product\<close>

lemma driver_call_pre:
  "0 < r \<Longrightarrow> 0 < q \<Longrightarrow> 0 < c \<Longrightarrow> dgemm_pre (driver_call r q c A_rm B_rm)"
  by (simp add: dgemm_pre_def driver_call_def notrans_def is_trans_def to_col_major_length)

lemma driver_call_entry:
  assumes "i < r" "j < c"
  shows "dgemm_entry (driver_call r q c A_rm B_rm) i j =
         (\<Sum>k<q. A_rm ! (i * q + k) * B_rm ! (k * c + j))"
proof -
  have "dgemm_entry (driver_call r q c A_rm B_rm) i j =
        (\<Sum>k\<leftarrow>[0..<q]. to_col_major A_rm r q ! (k * r + i) * to_col_major B_rm q c ! (j * q + k))"
    by (simp add: dgemm_entry_def op_elem_def notrans_def driver_call_def add.commute)
  also have "\<dots> = (\<Sum>k\<in>{0..<q}. to_col_major A_rm r q ! (k * r + i) * to_col_major B_rm q c ! (j * q + k))"
    by (simp add: interv_sum_list_conv_sum_set_nat)
  also have "\<dots> = (\<Sum>k\<in>{0..<q}. A_rm ! (i * q + k) * B_rm ! (k * c + j))"
    using assms by (intro sum.cong refl) (simp add: to_col_major_nth)
  finally show ?thesis by (simp add: atLeast0LessThan)
qed

lemma driver_result_nth:
  assumes "0 < r" "0 < q" "0 < c" "i < r" "j < c"
  shows "to_row_major (dgemm (driver_call r q c A_rm B_rm)) r c ! (i * c + j) =
         (\<Sum>k<q. A_rm ! (i * q + k) * B_rm ! (k * c + j))"
proof -
  let ?call = "driver_call r q c A_rm B_rm"
  have pre: "dgemm_pre ?call" using assms(1-3) by (rule driver_call_pre)
  have ld: "nat (ldc ?call) = r" and mn: "nat (dim_m ?call) = r" "nat (dim_n ?call) = c"
    and ab: "alpha ?call = 1" "beta ?call = 0"
    by (simp_all add: driver_call_def)
  have "to_row_major (dgemm ?call) r c ! (i * c + j) = dgemm ?call ! (j * r + i)"
    using assms(4,5) by (rule to_row_major_nth)
  also have "j * r + i = i + j * nat (ldc ?call)" by (simp add: ld)
  also have "dgemm ?call ! (i + j * nat (ldc ?call)) =
      alpha ?call * dgemm_entry ?call i j + beta ?call * mat_c ?call ! (i + j * nat (ldc ?call))"
    using pre by (rule dgemm_nth) (simp_all add: mn assms)
  also have "\<dots> = dgemm_entry ?call i j" by (simp add: ab)
  also have "\<dots> = (\<Sum>k<q. A_rm ! (i * q + k) * B_rm ! (k * c + j))"
    using assms(4,5) by (rule driver_call_entry)
  finally show ?thesis .
qed

lemma matmul_main_success:
  fixes L :: "('s, 'a::comm_semiring_1) iolib"
  assumes "open_in W inp = Some fin"
    and "read_dims L fin = Some (m, n, l, fin1)"
    and "sint m = int r" "sint n = int q" "sint l = int c"
    and "0 < r" "0 < q" "0 < c"
    and "read_matrix_row_major L fin1 r q ''A'' = Inr (A_rm, fin2)"
    and "read_matrix_row_major L fin2 q c ''B'' = Inr (B_rm, fin3)"
    and "can_open_out W outp"
  shows "matmul_main L W prog [inp, outp] =
           \<lparr>exit_code = 0,
            cout = ''OK: C = A*B con DGEMM. Dimensiones: ('' @ to_string (int r) @ ''x'' @
                   to_string (int c) @ '')\<newline>'',
            cerr = [],
            files_written =
              [(outp, buf (write_matrix_row_major L
                             (to_row_major (dgemm (driver_call r q c A_rm B_rm)) r c) r c
                             ostream_init))],
            dgemm_calls = [driver_call r q c A_rm B_rm]\<rparr>"
  using assms(6-8)
  by (simp add: matmul_main_def Let_def assms(1-5,9-11) driver_call_def)

text \<open>Claim C1. When the header and both matrices are read and the output file can be
  opened, the run makes one call of the dense-multiply routine, with no transpose of
  either operand, \<open>alpha = 1\<close> and \<open>beta = 0\<close>, and the row-major matrix it writes has, at
  every \<open>(i, j)\<close>, the sum over \<open>k\<close> of \<open>A[i][k] * B[k][j]\<close>. Scalars are those of a
  commutative semiring and the routine is the one modelled above, so the sum is exact:
  the rounding of IEEE doubles, and with it the tolerance of the claim, is outside the
  model.\<close>

theorem multiply_correct:
  fixes L :: "('s, 'a::comm_semiring_1) iolib"
  assumes "open_in W inp = Some fin"
    and "read_dims L fin = Some (m, n, l, fin1)"
    and "sint m = int r" "sint n = int q" "sint l = int c"
    and "0 < r" "0 < q" "0 < c"
    and "read_matrix_row_major L fin1 r q ''A'' = Inr (A_rm, fin2)"
    and "read_matrix_row_major L fin2 q c ''B'' = Inr (B_rm, fin3)"
    and "can_open_out W outp"
  shows "\<exists>C_rm call.
           matmul_main L W prog [inp, outp] =
             \<lparr>exit_code = 0,
              cout = ''OK: C = A*B con DGEMM. Dimensiones: ('' @ to_string (int r) @ ''x'' @
                     to_string (int c) @ '')\<newline>'',
              cerr = [],
              files_written = [(outp, buf (write_matrix_row_major L C_rm r c ostream_init))],
              dgemm_calls = [call]\<rparr> \<and>
           transa call = CHR ''N'' \<and> transb call = CHR ''N'' \<and> alpha call = 1 \<and> beta call = 0 \<and>
           length C_rm = r * c \<and>
           (\<forall>i<r. \<forall>j<c. C_rm ! (i * c + j) = (\<Sum>k<q. A_rm ! (i * q + k) * B_rm ! (k * c + j)))"
proof (intro exI conjI allI impI)
  show "matmul_main L W prog [inp, outp] =
           \<lparr>exit_code = 0,
            cout = ''OK: C = A*B con DGEMM. Dimensiones: ('' @ to_string (int r) @ ''x'' @
                   to_string (int c) @ '')\<newline>'',
            cerr = [],
            files_written =
              [(outp, buf (write_matrix_row_major L
                             (to_row_major (dgemm (driver_call r q c A_rm B_rm)) r c) r c
                             ostream_init))],
            dgemm_calls = [driver_call r q c A_rm B_rm]\<rparr>"
    using assms by (rule matmul_main_success)
  show "transa (driver_call r q c A_rm B_rm) = CHR ''N''" by (simp add: driver_call_def)
  show "transb (driver_call r q c A_rm B_rm) = CHR ''N''" by (simp add: driver_call_def)
  show "alpha (driver_call r q c A_rm B_rm) = 1" by (simp add: driver_call_def)
  show "beta (driver_call r q c A_rm B_rm) = 0" by (simp add: driver_call_def)
  show "length (to_row_major (dgemm (driver_call r q c A_rm B_rm)) r c) = r * c"
    by (rule to_row_major_length)
next
  fix i j assume "i < r" "j < c"
  with assms(6-8)
  show "to_row_major (dgemm (driver_call r q c A_rm B_rm)) r c ! (i * c + j) =
        (\<Sum>k<q. A_rm ! (i * q + k) * B_rm ! (k * c + j))"
    by (rule driver_result_nth)
qed

theorem multiply_correct_witness:
  "open_in (text_world scenario_input) ''input.txt'' = Some scenario_input \<and>
   read_dims text_lib scenario_input = Some (2, 3, 2, drop 5 scenario_input) \<and>
   sint (2 :: cint) = int 2 \<and> sint (3 :: cint) = int 3 \<and> (0::nat) < 2 \<and> (0::nat) < 3 \<and>
   read_matrix_row_major text_lib (drop 5 scenario_input) 2 3 ''A'' =
     Inr ([1, 2, 3, 1, 1, 1], drop 17 scenario_input) \<and>
   read_matrix_row_major text_lib (drop 17 scenario_input) 3 2 ''B'' =
     Inr ([2, 3, 3, 4, 5, 6], drop 29 scenario_input) \<and>
   can_open_out (text_world scenario_input) ''output.txt'' \<and>
   (\<exists>C_rm call.
      matmul_main text_lib (text_world scenario_input) ''matmul'' [''input.txt'', ''output.txt''] =
        \<lparr>exit_code = 0,
         cout = ''OK: C = A*B con DGEMM. Dimensiones: ('' @ to_string (int 2) @ ''x'' @
                to_string (int 2) @ '')\<newline>'',
         cerr = [],
         files_written = [(''output.txt'', buf (write_matrix_row_major text_lib C_rm 2 2 ostream_init))],
         dgemm_calls = [call]\<rparr> \<and>
      transa call = CHR ''N'' \<and> transb call = CHR ''N'' \<and> alpha call = 1 \<and> beta call = 0 \<and>
      length C_rm = 2 * 2 \<and>
      (\<forall>i<2. \<forall>j<2. C_rm ! (i * 2 + j) =
         (\<Sum>k<3. [1, 2, 3, 1, 1, 1] ! (i * 3 + k) * [2, 3, 3, 4, 5, 6] ! (k * 2 + j)))) \<and>
   files_written
     (matmul_main text_lib (text_world scenario_input) ''matmul'' [''input.txt'', ''output.txt'']) =
     [(''output.txt'', ''2 2\<newline>23 29\<newline>10 13\<newline>'')]"
proof -
  have h1: "open_in (text_world scenario_input) ''input.txt'' = Some scenario_input"
    by (simp add: text_world_def)
  have h2: "read_dims text_lib scenario_input = Some (2, 3, 2, drop 5 scenario_input)"
    by code_simp
  have h3: "sint (2 :: cint) = int 2" and h4: "sint (3 :: cint) = int 3" by simp_all
  have h5: "(0::nat) < 2" and h6: "(0::nat) < 3" by simp_all
  have h7: "read_matrix_row_major text_lib (drop 5 scenario_input) 2 3 ''A'' =
     Inr ([1, 2, 3, 1, 1, 1], drop 17 scenario_input)" by code_simp
  have h8: "read_matrix_row_major text_lib (drop 17 scenario_input) 3 2 ''B'' =
     Inr ([2, 3, 3, 4, 5, 6], drop 29 scenario_input)" by code_simp
  have h9: "can_open_out (text_world scenario_input) ''output.txt''"
    by (simp add: text_world_def)
  have h10: "files_written
     (matmul_main text_lib (text_world scenario_input) ''matmul'' [''input.txt'', ''output.txt'']) =
     [(''output.txt'', ''2 2\<newline>23 29\<newline>10 13\<newline>'')]" by code_simp
  note c = multiply_correct [OF h1 h2 h3 h4 h3 h5 h6 h5 h7 h8 h9, of "''matmul''"]
  show ?thesis by (intro conjI h1 h2 h3 h4 h5 h6 h7 h8 h9 h10 c)
qed

lemma identity_rm_nth:
  assumes "k < q" "j < q"
  shows "(identity_rm q :: 'a::zero_neq_one list) ! (k * q + j) = (if k = j then 1 else 0)"
proof -
  have "k * q + j < q * q" using assms by (rule row_index_bound)
  then show ?thesis using assms by (simp add: identity_rm_def)
qed

text \<open>Claim C9. With the \<open>n\<close> by \<open>n\<close> identity as the right operand, the matrix the run
  writes is \<open>A\<close> itself: the output file is the rendering of the entries read for \<open>A\<close>.
  In the exact arithmetic of the model the equality is exact.\<close>

theorem multiply_by_identity:
  fixes L :: "('s, 'a::comm_semiring_1) iolib"
  assumes "open_in W inp = Some fin"
    and "read_dims L fin = Some (m, n, n, fin1)"
    and "sint m = int r" "sint n = int q"
    and "0 < r" "0 < q"
    and "read_matrix_row_major L fin1 r q ''A'' = Inr (A_rm, fin2)"
    and "read_matrix_row_major L fin2 q q ''B'' = Inr (identity_rm q, fin3)"
    and "can_open_out W outp"
  shows "exit_code (matmul_main L W prog [inp, outp]) = 0 \<and>
         files_written (matmul_main L W prog [inp, outp]) =
           [(outp, buf (write_matrix_row_major L A_rm r q ostream_init))]"
proof -
  let ?C = "to_row_major (dgemm (driver_call r q q A_rm (identity_rm q))) r q"
  have "?C = A_rm"
  proof (rule row_major_eqI [of _ r q])
    show "length ?C = r * q" by (rule to_row_major_length)
    show "length A_rm = r * q" using assms(7) by (rule read_matrix_length)
  next
    fix i j assume ij: "i < r" "j < q"
    have "?C ! (i * q + j) = (\<Sum>k<q. A_rm ! (i * q + k) * identity_rm q ! (k * q + j))"
      using assms(5,6,6) ij by (rule driver_result_nth)
    also have "\<dots> = (\<Sum>k<q. if k = j then A_rm ! (i * q + k) else 0)"
      using ij by (intro sum.cong refl) (simp add: identity_rm_nth)
    also have "\<dots> = A_rm ! (i * q + j)" using ij by simp
    finally show "?C ! (i * q + j) = A_rm ! (i * q + j)" .
  qed
  with matmul_main_success [OF assms(1,2,3,4,4,5,6,6,7,8,9), of prog]
  show ?thesis by simp
qed

theorem multiply_by_identity_witness:
  "open_in (text_world identity_input) ''input.txt'' = Some identity_input \<and>
   read_dims text_lib identity_input = Some (2, 2, 2, drop 5 identity_input) \<and>
   sint (2 :: cint) = int 2 \<and> (0::nat) < 2 \<and>
   read_matrix_row_major text_lib (drop 5 identity_input) 2 2 ''A'' =
     Inr ([7, 8, 9, 10], drop 14 identity_input) \<and>
   read_matrix_row_major text_lib (drop 14 identity_input) 2 2 ''B'' =
     Inr (identity_rm 2, drop 22 identity_input) \<and>
   can_open_out (text_world identity_input) ''output.txt'' \<and>
   exit_code (matmul_main text_lib (text_world identity_input) ''matmul''
                [''input.txt'', ''output.txt'']) = 0 \<and>
   files_written (matmul_main text_lib (text_world identity_input) ''matmul''
                    [''input.txt'', ''output.txt'']) =
     [(''output.txt'', buf (write_matrix_row_major text_lib [7, 8, 9, 10] 2 2 ostream_init))] \<and>
   buf (write_matrix_row_major text_lib [7, 8, 9, 10] 2 2 ostream_init) =
     ''2 2\<newline>7 8\<newline>9 10\<newline>''"
proof -
  have h1: "open_in (text_world identity_input) ''input.txt'' = Some identity_input"
    by (simp add: text_world_def)
  have h2: "read_dims text_lib identity_input = Some (2, 2, 2, drop 5 identity_input)"
    by code_simp
  have h3: "sint (2 :: cint) = int 2" by simp
  have h4: "(0::nat) < 2" by simp
  have h5: "read_matrix_row_major text_lib (drop 5 identity_input) 2 2 ''A'' =
     Inr ([7, 8, 9, 10], drop 14 identity_input)" by code_simp
  have h6: "read_matrix_row_major text_lib (drop 14 identity_input) 2 2 ''B'' =
     Inr (identity_rm 2, drop 22 identity_input)" by code_simp
  have h7: "can_open_out (text_world identity_input) ''output.txt''"
    by (simp add: text_world_def)
  have h8: "buf (write_matrix_row_major text_lib [7, 8, 9, 10] 2 2 ostream_init) =
     ''2 2\<newline>7 8\<newline>9 10\<newline>''" by code_simp
  note c = multiply_by_identity [OF h1 h2 h3 h3 h4 h4 h5 h6 h7, of "''matmul''"]
  show ?thesis
    using h1 h2 h3 h4 h5 h6 h7 h8 c [THEN conjunct1] c [THEN conjunct2]
    by (intro conjI) assumption+
qed

lemma matmul_call_cases:
  fixes L :: "('s, 'a::comm_semiring_1) iolib"
  assumes "call \<in> set (dgemm_calls (matmul_main L W prog args))"
  shows "\<exists>fin m n l fin1 A_rm fin2 B_rm fin3.
           open_in W (args ! 0) = Some fin \<and>
           read_dims L fin = Some (m, n, l, fin1) \<and>
           0 < sint m \<and> 0 < sint n \<and> 0 < sint l \<and>
           read_matrix_row_major L fin1 (nat (sint m)) (nat (sint n)) ''A'' = Inr (A_rm, fin2) \<and>
           read_matrix_row_major L fin2 (nat (sint n)) (nat (sint l)) ''B'' = Inr (B_rm, fin3) \<and>
           call = driver_call (nat (sint m)) (nat (sint n)) (nat (sint l)) A_rm B_rm"
proof -
  have len: "length args = 2"
    using assms by (cases "length args = 2") (simp_all add: matmul_main_def)
  obtain fin where o: "open_in W (args ! 0) = Some fin"
    using assms len by (cases "open_in W (args ! 0)") (simp_all add: matmul_main_def failure_def)
  obtain m n l fin1 where d: "read_dims L fin = Some (m, n, l, fin1)"
    using assms len o
    by (cases "read_dims L fin") (auto simp: matmul_main_def failure_def)
  have p: "0 < sint m \<and> 0 < sint n \<and> 0 < sint l"
    using assms len o d
    by (cases "sint m \<le> 0 \<or> sint n \<le> 0 \<or> sint l \<le> 0")
       (auto simp: matmul_main_def failure_def)
  then have np: "\<not> (sint m \<le> 0 \<or> sint n \<le> 0 \<or> sint l \<le> 0)" by simp
  obtain A_rm fin2 where a:
    "read_matrix_row_major L fin1 (nat (sint m)) (nat (sint n)) ''A'' = Inr (A_rm, fin2)"
    using assms len o d np
    by (cases "read_matrix_row_major L fin1 (nat (sint m)) (nat (sint n)) ''A''")
       (auto simp: matmul_main_def failure_def)
  obtain B_rm fin3 where b:
    "read_matrix_row_major L fin2 (nat (sint n)) (nat (sint l)) ''B'' = Inr (B_rm, fin3)"
    using assms len o d np a
    by (cases "read_matrix_row_major L fin2 (nat (sint n)) (nat (sint l)) ''B''")
       (auto simp: matmul_main_def failure_def)
  have "call = driver_call (nat (sint m)) (nat (sint n)) (nat (sint l)) A_rm B_rm"
    using assms len o d np a b p
    by (cases "can_open_out W (args ! 1)")
       (simp_all add: matmul_main_def failure_def Let_def driver_call_def)
  with o d p a b show ?thesis by blast
qed

text \<open>Claim C10. Whatever the input, every call of the routine the run makes has its three
  dimensions from one accepted header \<open>m n l\<close>: \<open>A\<close> is passed as an \<open>m\<close> by \<open>n\<close> buffer with
  \<open>lda = m\<close>, \<open>B\<close> as an \<open>n\<close> by \<open>l\<close> buffer with \<open>ldb = n\<close>, \<open>C\<close> as \<open>m\<close> by \<open>l\<close> with
  \<open>ldc = m\<close>. The column count of \<open>A\<close> and the row count of \<open>B\<close> are the same number
  \<open>dim_k\<close>, and the argument conditions of the routine hold. The driver reaches this
  without comparing the two counts: \<open>matmul_main\<close> has no such test.\<close>

theorem shared_dimension_by_construction:
  fixes L :: "('s, 'a::comm_semiring_1) iolib"
  shows "\<forall>call \<in> set (dgemm_calls (matmul_main L W prog args)).
           (\<exists>fin m n l fin1.
              open_in W (args ! 0) = Some fin \<and> read_dims L fin = Some (m, n, l, fin1) \<and>
              0 < sint m \<and> 0 < sint n \<and> 0 < sint l \<and>
              dim_m call = sint m \<and> dim_k call = sint n \<and> dim_n call = sint l) \<and>
           int (length (mat_a call)) = dim_m call * dim_k call \<and>
           int (length (mat_b call)) = dim_k call * dim_n call \<and>
           int (length (mat_c call)) = dim_m call * dim_n call \<and>
           lda call = dim_m call \<and> ldb call = dim_k call \<and> ldc call = dim_m call \<and>
           dgemm_pre call"
proof
  fix call assume "call \<in> set (dgemm_calls (matmul_main L W prog args))"
  then obtain fin m n l fin1 A_rm B_rm where
    o: "open_in W (args ! 0) = Some fin" and d: "read_dims L fin = Some (m, n, l, fin1)"
    and p: "0 < sint m" "0 < sint n" "0 < sint l"
    and c: "call = driver_call (nat (sint m)) (nat (sint n)) (nat (sint l)) A_rm B_rm"
    by (blast dest: matmul_call_cases)
  from p have pre: "dgemm_pre call" unfolding c by (intro driver_call_pre) simp_all
  from p have dims: "dim_m call = sint m" "dim_k call = sint n" "dim_n call = sint l"
    and ld: "lda call = dim_m call" "ldb call = dim_k call" "ldc call = dim_m call"
    and len: "int (length (mat_a call)) = dim_m call * dim_k call"
      "int (length (mat_b call)) = dim_k call * dim_n call"
      "int (length (mat_c call)) = dim_m call * dim_n call"
    by (simp_all add: c driver_call_def to_col_major_length)
  from o d p dims ld len pre
  show "(\<exists>fin m n l fin1.
              open_in W (args ! 0) = Some fin \<and> read_dims L fin = Some (m, n, l, fin1) \<and>
              0 < sint m \<and> 0 < sint n \<and> 0 < sint l \<and>
              dim_m call = sint m \<and> dim_k call = sint n \<and> dim_n call = sint l) \<and>
           int (length (mat_a call)) = dim_m call * dim_k call \<and>
           int (length (mat_b call)) = dim_k call * dim_n call \<and>
           int (length (mat_c call)) = dim_m call * dim_n call \<and>
           lda call = dim_m call \<and> ldb call = dim_k call \<and> ldc call = dim_m call \<and>
           dgemm_pre call"
    by blast
qed

theorem shared_dimension_by_construction_witness:
  "scenario_call \<in> set (dgemm_calls (matmul_main text_lib (text_world scenario_input)
                                      ''matmul'' [''input.txt'', ''output.txt''])) \<and>
   ((\<exists>fin m n l fin1.
       open_in (text_world scenario_input) ([''input.txt'', ''output.txt''] ! 0) = Some fin \<and>
       read_dims text_lib fin = Some (m, n, l, fin1) \<and>
       0 < sint m \<and> 0 < sint n \<and> 0 < sint l \<and>
       dim_m scenario_call = sint m \<and> dim_k scenario_call = sint n \<and>
       dim_n scenario_call = sint l) \<and>
    int (length (mat_a scenario_call)) = dim_m scenario_call * dim_k scenario_call \<and>
    int (length (mat_b scenario_call)) = dim_k scenario_call * dim_n scenario_call \<and>
    int (length (mat_c scenario_call)) = dim_m scenario_call * dim_n scenario_call \<and>
    lda scenario_call = dim_m scenario_call \<and> ldb scenario_call = dim_k scenario_call \<and>
    ldc scenario_call = dim_m scenario_call \<and>
    dgemm_pre scenario_call)"
proof -
  have mem: "scenario_call \<in> set (dgemm_calls (matmul_main text_lib (text_world scenario_input)
                                      ''matmul'' [''input.txt'', ''output.txt'']))"
    by code_simp
  show ?thesis
    by (rule conjI [OF mem shared_dimension_by_construction [THEN bspec, OF mem]])
qed

section \<open>Rejected inputs\<close>

lemma read_dims_get_double [simp]: "read_dims (L\<lparr>get_double := g\<rparr>) s = read_dims L s"
  by (simp add: read_dims_def split: option.splits)

text \<open>Claim C5. When the input file opens and one of the three header integers is missing or
  unparsable (an extraction of \<open>read_dims\<close> fails) or is not positive, the run ends with
  exit code 2 and the invalid-dimension message, having created no file and made no
  external call. No matrix entry is read: the outcome is the same whatever the extraction
  of a \<^verbatim>\<open>double\<close> would do, since \<open>g\<close> is arbitrary.\<close>

theorem invalid_dimensions_rejected:
  fixes L :: "('s, 'a::comm_semiring_1) iolib"
  assumes "open_in W inp = Some fin"
    and "read_dims L fin = None \<or>
         (\<exists>m n l s. read_dims L fin = Some (m, n, l, s) \<and>
                    (sint m \<le> 0 \<or> sint n \<le> 0 \<or> sint l \<le> 0))"
  shows "matmul_main (L\<lparr>get_double := g\<rparr>) W prog [inp, outp] =
           \<lparr>exit_code = 2, cout = [],
            cerr = ''Error: Dimensiones inv'' @ [CHR 0xC3, CHR 0xA1] @
                   ''lidas. Se espera: m n l (enteros positivos).\<newline>'',
            files_written = [], dgemm_calls = []\<rparr>"
  using assms by (auto simp: matmul_main_def failure_def)

theorem invalid_dimensions_rejected_witness:
  "open_in (text_world zero_dim_input) ''input.txt'' = Some zero_dim_input \<and>
   read_dims text_lib zero_dim_input = Some (0, 3, 2, drop 5 zero_dim_input) \<and>
   sint (0 :: cint) \<le> 0 \<and>
   matmul_main (text_lib\<lparr>get_double := \<lambda>s. None\<rparr>) (text_world zero_dim_input) ''matmul''
     [''input.txt'', ''output.txt''] =
     \<lparr>exit_code = 2, cout = [],
      cerr = ''Error: Dimensiones inv'' @ [CHR 0xC3, CHR 0xA1] @
             ''lidas. Se espera: m n l (enteros positivos).\<newline>'',
      files_written = [], dgemm_calls = []\<rparr>"
proof -
  have h1: "open_in (text_world zero_dim_input) ''input.txt'' = Some zero_dim_input"
    by (simp add: text_world_def)
  have h2: "read_dims text_lib zero_dim_input = Some (0, 3, 2, drop 5 zero_dim_input)"
    by code_simp
  have h3: "sint (0 :: cint) \<le> 0" by simp
  from h2 h3 have h: "read_dims text_lib zero_dim_input = None \<or>
         (\<exists>m n l s. read_dims text_lib zero_dim_input = Some (m, n, l, s) \<and>
                    (sint m \<le> 0 \<or> sint n \<le> 0 \<or> sint l \<le> 0))"
    by blast
  show ?thesis
    using h1 h2 h3 invalid_dimensions_rejected [OF h1 h, of "\<lambda>s. None" "''matmul''" "''output.txt''"]
    by (intro conjI) assumption+
qed



text \<open>Claim C3, as amended. The driver has no test that compares the column count of \<open>A\<close>
  with the row count of \<open>B\<close>: both are the \<open>n\<close> of the header, and the entries are read
  by position. The run fails with the invalid-dimension message exactly when a header
  integer is missing, unparsable or not positive, and then it has made no external call.
  The claim as stated fails on \<open>mismatch_input\<close> (the last theorem of this section): the
  file lays \<open>A\<close> out with four columns and \<open>B\<close> with three rows, and the run succeeds
  after one external call.\<close>

theorem invalid_dimensions_only_from_header:
  fixes L :: "('s, 'a::comm_semiring_1) iolib"
  assumes "open_in W inp = Some fin"
  shows "(cerr (matmul_main L W prog [inp, outp]) = ''Error: '' @ what InvalidDimensions @ ''\<newline>'') =
         (read_dims L fin = None \<or>
          (\<exists>m n l s. read_dims L fin = Some (m, n, l, s) \<and>
                     (sint m \<le> 0 \<or> sint n \<le> 0 \<or> sint l \<le> 0))) \<and>
         (cerr (matmul_main L W prog [inp, outp]) = ''Error: '' @ what InvalidDimensions @ ''\<newline>'' \<longrightarrow>
            exit_code (matmul_main L W prog [inp, outp]) = 2 \<and>
            dgemm_calls (matmul_main L W prog [inp, outp]) = [])"
proof (cases "read_dims L fin")
  case None
  with assms show ?thesis by (simp add: matmul_main_def failure_def)
next
  case (Some d)
  then obtain m n l fin1 where d: "read_dims L fin = Some (m, n, l, fin1)"
    by (cases d) auto
  show ?thesis
  proof (cases "sint m \<le> 0 \<or> sint n \<le> 0 \<or> sint l \<le> 0")
    case True
    with assms d show ?thesis by (auto simp: matmul_main_def failure_def)
  next
    case False
    show ?thesis
    proof (cases "read_matrix_row_major L fin1 (nat (sint m)) (nat (sint n)) ''A''")
      case (Inl e)
      then obtain i j where "e = MatrixReadError ''A'' i j" by (blast dest: read_matrix_error)
      with assms d False Inl show ?thesis by (simp add: matmul_main_def failure_def)
    next
      case (Inr a)
      then obtain A_rm fin2 where
        a: "read_matrix_row_major L fin1 (nat (sint m)) (nat (sint n)) ''A'' = Inr (A_rm, fin2)"
        by (cases a) auto
      show ?thesis
      proof (cases "read_matrix_row_major L fin2 (nat (sint n)) (nat (sint l)) ''B''")
        case (Inl e)
        then obtain i j where "e = MatrixReadError ''B'' i j" by (blast dest: read_matrix_error)
        with assms d False a Inl show ?thesis by (simp add: matmul_main_def failure_def)
      next
        case (Inr b)
        then obtain B_rm fin3 where
          b: "read_matrix_row_major L fin2 (nat (sint n)) (nat (sint l)) ''B'' = Inr (B_rm, fin3)"
          by (cases b) auto
        with assms d False a show ?thesis
          by (cases "can_open_out W outp") (simp_all add: matmul_main_def failure_def Let_def)
      qed
    qed
  qed
qed

theorem invalid_dimensions_only_from_header_witness:
  "open_in (text_world zero_dim_input) ''input.txt'' = Some zero_dim_input \<and>
   read_dims text_lib zero_dim_input = Some (0, 3, 2, drop 5 zero_dim_input) \<and>
   sint (0 :: cint) \<le> 0 \<and>
   cerr (matmul_main text_lib (text_world zero_dim_input) ''matmul''
           [''input.txt'', ''output.txt'']) = ''Error: '' @ what InvalidDimensions @ ''\<newline>'' \<and>
   exit_code (matmul_main text_lib (text_world zero_dim_input) ''matmul''
                [''input.txt'', ''output.txt'']) = 2 \<and>
   dgemm_calls (matmul_main text_lib (text_world zero_dim_input) ''matmul''
                  [''input.txt'', ''output.txt'']) = []"
proof -
  have h1: "open_in (text_world zero_dim_input) ''input.txt'' = Some zero_dim_input"
    by (simp add: text_world_def)
  have h2: "read_dims text_lib zero_dim_input = Some (0, 3, 2, drop 5 zero_dim_input)"
    by code_simp
  have h3: "sint (0 :: cint) \<le> 0" by simp
  from h2 h3 have h: "read_dims text_lib zero_dim_input = None \<or>
         (\<exists>m n l s. read_dims text_lib zero_dim_input = Some (m, n, l, s) \<and>
                    (sint m \<le> 0 \<or> sint n \<le> 0 \<or> sint l \<le> 0))"
    by blast
  note t = invalid_dimensions_only_from_header [OF h1, of text_lib "''matmul''" "''output.txt''"]
  have c: "cerr (matmul_main text_lib (text_world zero_dim_input) ''matmul''
           [''input.txt'', ''output.txt'']) = ''Error: '' @ what InvalidDimensions @ ''\<newline>''"
    by (rule iffD2 [OF t [THEN conjunct1] h])
  note e = mp [OF t [THEN conjunct2] c]
  show ?thesis
    using h1 h2 h3 c e [THEN conjunct1] e [THEN conjunct2]
    by (intro conjI) assumption+
qed

theorem mismatch_not_rejected:
  "length (hd mismatch_A) \<noteq> length mismatch_B \<and>
   exit_code (matmul_main text_lib (text_world mismatch_input) ''matmul''
                [''input.txt'', ''output.txt'']) = 0 \<and>
   cerr (matmul_main text_lib (text_world mismatch_input) ''matmul''
           [''input.txt'', ''output.txt'']) = [] \<and>
   length (dgemm_calls (matmul_main text_lib (text_world mismatch_input) ''matmul''
                          [''input.txt'', ''output.txt''])) = 1"
  by code_simp

section \<open>The text of the output file\<close>

lemma join_spaces_Cons:
  "join_spaces (x # xs) = (if xs = [] then x else x @ '' '' @ join_spaces xs)"
  by (cases xs) simp_all

lemma write_row:
  "fold (\<lambda>j. seq [put_dbl L (rm ! (i * cols + j)),
                   if j + 1 < cols then put_str '' '' else seq []]) [j0..<cols]
     \<lparr>buf = b, fmt = f, prec = p, width = 0\<rparr> =
   \<lparr>buf = b @ join_spaces (map (\<lambda>j. put_double L f p (rm ! (i * cols + j))) [j0..<cols]),
    fmt = f, prec = p, width = 0\<rparr>"
proof (induction "cols - j0" arbitrary: j0 b)
  case 0
  then show ?case by simp
next
  case (Suc d)
  then have lt: "j0 < cols" and d: "d = cols - Suc j0" by simp_all
  have u: "[j0..<cols] = j0 # [Suc j0..<cols]" using lt by (rule upt_conv_Cons)
  show ?case
  proof (cases "Suc j0 < cols")
    case True
    then have ne: "[Suc j0..<cols] \<noteq> []" by simp
    have "seq [put_dbl L (rm ! (i * cols + j0)),
               if j0 + 1 < cols then put_str '' '' else seq []]
            \<lparr>buf = b, fmt = f, prec = p, width = 0\<rparr> =
          \<lparr>buf = (b @ put_double L f p (rm ! (i * cols + j0)) @ '' ''),
           fmt = f, prec = p, width = 0\<rparr>"
      using True by (simp add: seq_def put_dbl_def put_str_def)
    then show ?thesis
      unfolding u using Suc.hyps(1) [OF d] ne
      by (simp add: join_spaces_Cons del: upt_eq_Nil_conv)
  next
    case False
    with lt have e: "[Suc j0..<cols] = []" by simp
    have "seq [put_dbl L (rm ! (i * cols + j0)),
               if j0 + 1 < cols then put_str '' '' else seq []]
            \<lparr>buf = b, fmt = f, prec = p, width = 0\<rparr> =
          \<lparr>buf = b @ put_double L f p (rm ! (i * cols + j0)), fmt = f, prec = p, width = 0\<rparr>"
      using False by (simp add: seq_def put_dbl_def put_str_def)
    then show ?thesis unfolding u e by simp
  qed
qed

lemma write_rows:
  "fold (\<lambda>i. seq [fold (\<lambda>j. seq [put_dbl L (rm ! (i * cols + j)),
                                   if j + 1 < cols then put_str '' '' else seq []])
                     [0..<cols],
                   put_str ''\<newline>'']) is
     \<lparr>buf = b, fmt = f, prec = p, width = 0\<rparr> =
   \<lparr>buf = b @ concat (map (\<lambda>i. join_spaces
                                   (map (\<lambda>j. put_double L f p (rm ! (i * cols + j))) [0..<cols]) @
                                 ''\<newline>'') is),
    fmt = f, prec = p, width = 0\<rparr>"
proof (induction "is" arbitrary: b)
  case Nil
  show ?case by simp
next
  case (Cons i "is")
  have "seq [fold (\<lambda>j. seq [put_dbl L (rm ! (i * cols + j)),
                            if j + 1 < cols then put_str '' '' else seq []]) [0..<cols],
             put_str ''\<newline>''] \<lparr>buf = b, fmt = f, prec = p, width = 0\<rparr> =
        \<lparr>buf = (b @ join_spaces (map (\<lambda>j. put_double L f p (rm ! (i * cols + j))) [0..<cols]) @
                ''\<newline>''),
         fmt = f, prec = p, width = 0\<rparr>"
    unfolding seq_def fold_simps id_apply comp_apply write_row by (simp add: put_str_def)
  then show ?case using Cons.IH by simp
qed

text \<open>Claim C7. On a fresh output stream, \<open>write_matrix_row_major\<close> writes the row count, a
  space, the column count and a newline, and then one line per row: the \<open>cols\<close> values of
  the row, each rendered by \<^verbatim>\<open>operator<<(double)\<close> in the general float field at precision
  17, with one space between neighbours, none after the last, and a newline. The driver
  writes the output file by this function on a fresh stream (lemma
  \<open>matmul_main_success\<close>).\<close>

theorem output_file_format:
  "buf (write_matrix_row_major L rm rows cols ostream_init) =
     to_string (int rows) @ '' '' @ to_string (int cols) @ ''\<newline>'' @
     concat (map (\<lambda>i. join_spaces (map (\<lambda>j. put_double L General 17 (rm ! (i * cols + j)))
                                      [0..<cols]) @ ''\<newline>'')
               [0..<rows])"
proof -
  have "seq [put_int (int rows), put_str '' '', put_int (int cols), put_str ''\<newline>'',
             setprecision 17] ostream_init =
        \<lparr>buf = to_string (int rows) @ '' '' @ to_string (int cols) @ ''\<newline>'',
         fmt = General, prec = 17, width = 0\<rparr>"
    by (simp add: seq_def put_int_def put_str_def setprecision_def ostream_init_def)
  then have "write_matrix_row_major L rm rows cols ostream_init =
        fold (\<lambda>i. seq [fold (\<lambda>j. seq [put_dbl L (rm ! (i * cols + j)),
                                         if j + 1 < cols then put_str '' '' else seq []])
                           [0..<cols],
                         put_str ''\<newline>'']) [0..<rows]
          \<lparr>buf = to_string (int rows) @ '' '' @ to_string (int cols) @ ''\<newline>'',
           fmt = General, prec = 17, width = 0\<rparr>"
    by (simp add: write_matrix_row_major_def seq_def)
  then show ?thesis unfolding write_rows by simp
qed

theorem output_file_format_witness:
  "buf (write_matrix_row_major text_lib [23, 29, 10, 13] 2 2 ostream_init) =
     to_string (int 2) @ '' '' @ to_string (int 2) @ ''\<newline>'' @
     concat (map (\<lambda>i. join_spaces (map (\<lambda>j. put_double text_lib General 17
                                               ([23, 29, 10, 13] ! (i * 2 + j)))
                                      [0..<2]) @ ''\<newline>'')
               [0..<2]) \<and>
   buf (write_matrix_row_major text_lib [23, 29, 10, 13] 2 2 ostream_init) =
     ''2 2\<newline>23 29\<newline>10 13\<newline>''"
proof -
  have e: "buf (write_matrix_row_major text_lib [23, 29, 10, 13] 2 2 ostream_init) =
     ''2 2\<newline>23 29\<newline>10 13\<newline>''" by code_simp
  show ?thesis by (rule conjI [OF output_file_format e])
qed

section \<open>The status of the LAPACK routines\<close>

lemma upt_2: "[0..<2] = [0, 1]"
  by (simp add: upt_rec)

lemma upt_4: "[0..<4] = [0, 1, 2, 3]"
  by (simp add: upt_rec)

lemma svd_main_failure:
  "svd_info (svd_call dgesvd) \<noteq> 0 \<Longrightarrow>
   svd_main L dgesvd =
     \<lparr>exit_code = 1, cout = [],
      cerr = ''Error en dgesvd, info = '' @ to_string (svd_info (svd_call dgesvd)) @ ''\<newline>'',
      files_written = []\<rparr>"
  by (simp add: svd_main_def svd_check_def Let_def)

lemma svd_main_success:
  "svd_info (svd_call dgesvd) = 0 \<Longrightarrow>
   exit_code (svd_main L dgesvd) = 0 \<and> cerr (svd_main L dgesvd) = []"
  by (simp add: svd_main_def svd_check_def Let_def)

lemma lineal_main_negative:
  "fst (lineal_solve B) < 0 \<Longrightarrow>
   lineal_main L B =
     \<lparr>exit_code = 1, cout = [],
      cerr = ''Error: LAPACKE_dgesv: argumento ilegal en posici'' @ [CHR 0xC3, CHR 0xB3] @ ''n '' @
             to_string (- fst (lineal_solve B)) @ ''\<newline>'',
      files_written = []\<rparr>"
  by (simp add: lineal_main_def lineal_check_def fit_failure_def case_prod_unfold)

lemma lineal_main_positive:
  "0 < fst (lineal_solve B) \<Longrightarrow>
   lineal_main L B =
     \<lparr>exit_code = 1, cout = [],
      cerr = ''Error: LAPACKE_dgesv: matriz singular; no se pudo resolver (info='' @
             to_string (fst (lineal_solve B)) @ '')\<newline>'',
      files_written = []\<rparr>"
  by (simp add: lineal_main_def lineal_check_def fit_failure_def case_prod_unfold)

lemma lineal_main_success:
  "fst (lineal_solve B) = 0 \<Longrightarrow>
   exit_code (lineal_main L B) = 0 \<and> cerr (lineal_main L B) = []"
  by (simp add: lineal_main_def lineal_check_def case_prod_unfold Let_def)

lemma cuadratico_main_negative:
  "fst (cuadratico_solve dgels) < 0 \<Longrightarrow>
   cuadratico_main L dgels can_create =
     \<lparr>exit_code = 1, cout = [],
      cerr = ''Error: LAPACKE_dgels: argumento ilegal en posicion '' @
             to_string (- fst (cuadratico_solve dgels)) @ ''\<newline>'',
      files_written = []\<rparr>"
  by (simp add: cuadratico_main_def cuadratico_check_def fit_failure_def case_prod_unfold)

lemma cuadratico_main_positive:
  "0 < fst (cuadratico_solve dgels) \<Longrightarrow>
   cuadratico_main L dgels can_create =
     \<lparr>exit_code = 1, cout = [],
      cerr = ''Error: LAPACKE_dgels: fallo num'' @ [CHR 0xC3, CHR 0xA9] @ ''rico (info='' @
             to_string (fst (cuadratico_solve dgels)) @ '')\<newline>'',
      files_written = []\<rparr>"
  by (simp add: cuadratico_main_def cuadratico_check_def fit_failure_def case_prod_unfold)

lemma cuadratico_main_success:
  "fst (cuadratico_solve dgels) = 0 \<Longrightarrow> can_create ''fit.csv'' \<Longrightarrow>
   exit_code (cuadratico_main L dgels can_create) = 0 \<and>
   cerr (cuadratico_main L dgels can_create) = []"
  by (simp add: cuadratico_main_def cuadratico_check_def case_prod_unfold Let_def)

text \<open>Claim C6, as amended. In each of the three drivers status 0 lets the run go on (to exit
  code 0; in the quadratic fit provided \<^verbatim>\<open>fit.csv\<close> can be created), and any other status
  ends it at once with exit code 1, nothing on \<^verbatim>\<open>std::cout\<close> and no file: the routine is
  called once and a failure is not retried. The two fits report a negative status as an
  illegal argument at position \<open>- info\<close> and a positive one with a different message that
  carries \<open>info\<close>. The decomposition driver has one test, \<^verbatim>\<open>info != 0\<close>, and one message with
  the signed status as it is: it does not tell an illegal argument from a numerical
  failure, which is where the claim as stated fails (the last theorem of this section).\<close>

theorem status_code_handling:
  "(svd_info (svd_call dgesvd) = 0 \<longrightarrow>
      exit_code (svd_main L1 dgesvd) = 0 \<and> cerr (svd_main L1 dgesvd) = []) \<and>
   (svd_info (svd_call dgesvd) \<noteq> 0 \<longrightarrow>
      svd_main L1 dgesvd =
        \<lparr>exit_code = 1, cout = [],
         cerr = ''Error en dgesvd, info = '' @ to_string (svd_info (svd_call dgesvd)) @ ''\<newline>'',
         files_written = []\<rparr>) \<and>
   (fst (lineal_solve B) = 0 \<longrightarrow>
      exit_code (lineal_main L2 B) = 0 \<and> cerr (lineal_main L2 B) = []) \<and>
   (fst (lineal_solve B) < 0 \<longrightarrow>
      lineal_main L2 B =
        \<lparr>exit_code = 1, cout = [],
         cerr = ''Error: LAPACKE_dgesv: argumento ilegal en posici'' @ [CHR 0xC3, CHR 0xB3] @
                ''n '' @ to_string (- fst (lineal_solve B)) @ ''\<newline>'',
         files_written = []\<rparr>) \<and>
   (0 < fst (lineal_solve B) \<longrightarrow>
      lineal_main L2 B =
        \<lparr>exit_code = 1, cout = [],
         cerr = ''Error: LAPACKE_dgesv: matriz singular; no se pudo resolver (info='' @
                to_string (fst (lineal_solve B)) @ '')\<newline>'',
         files_written = []\<rparr>) \<and>
   (fst (cuadratico_solve dgels) = 0 \<and> can_create ''fit.csv'' \<longrightarrow>
      exit_code (cuadratico_main L3 dgels can_create) = 0 \<and>
      cerr (cuadratico_main L3 dgels can_create) = []) \<and>
   (fst (cuadratico_solve dgels) < 0 \<longrightarrow>
      cuadratico_main L3 dgels can_create =
        \<lparr>exit_code = 1, cout = [],
         cerr = ''Error: LAPACKE_dgels: argumento ilegal en posicion '' @
                to_string (- fst (cuadratico_solve dgels)) @ ''\<newline>'',
         files_written = []\<rparr>) \<and>
   (0 < fst (cuadratico_solve dgels) \<longrightarrow>
      cuadratico_main L3 dgels can_create =
        \<lparr>exit_code = 1, cout = [],
         cerr = ''Error: LAPACKE_dgels: fallo num'' @ [CHR 0xC3, CHR 0xA9] @ ''rico (info='' @
                to_string (fst (cuadratico_solve dgels)) @ '')\<newline>'',
         files_written = []\<rparr>)"
  by (intro conjI impI svd_main_failure svd_main_success [THEN conjunct1]
        svd_main_success [THEN conjunct2]
        lineal_main_negative lineal_main_positive lineal_main_success [THEN conjunct1]
        lineal_main_success [THEN conjunct2]
        cuadratico_main_negative cuadratico_main_positive) (simp_all add: cuadratico_main_success)

theorem status_code_handling_witness:
  "exit_code (svd_main frac_lib (dgesvd_returning 0 [2, 1] [1, 0, 0, 1] [1, 0, 0, 1])) = 0 \<and>
   svd_main frac_lib (dgesvd_returning (- 3) [] [] []) =
     \<lparr>exit_code = 1, cout = [],
      cerr = ''Error en dgesvd, info = '' @
             to_string (svd_info (svd_call (dgesvd_returning (- 3) [] [] []))) @ ''\<newline>'',
      files_written = []\<rparr> \<and>
   exit_code (lineal_main frac_lib (lineal_returning 0 [1, 1 / 2])) = 0 \<and>
   lineal_main frac_lib (lineal_returning (- 3) []) =
     \<lparr>exit_code = 1, cout = [],
      cerr = ''Error: LAPACKE_dgesv: argumento ilegal en posici'' @ [CHR 0xC3, CHR 0xB3] @
             ''n '' @ to_string (- fst (lineal_solve (lineal_returning (- 3) []))) @ ''\<newline>'',
      files_written = []\<rparr> \<and>
   lineal_main frac_lib (lineal_returning 2 []) =
     \<lparr>exit_code = 1, cout = [],
      cerr = ''Error: LAPACKE_dgesv: matriz singular; no se pudo resolver (info='' @
             to_string (fst (lineal_solve (lineal_returning 2 []))) @ '')\<newline>'',
      files_written = []\<rparr> \<and>
   exit_code (cuadratico_main frac_lib (dgels_returning 0 [1, 2, 3, 0, 0, 0]) (\<lambda>p. True)) = 0 \<and>
   cuadratico_main frac_lib (dgels_returning (- 4) []) (\<lambda>p. True) =
     \<lparr>exit_code = 1, cout = [],
      cerr = ''Error: LAPACKE_dgels: argumento ilegal en posicion '' @
             to_string (- fst (cuadratico_solve (dgels_returning (- 4) []))) @ ''\<newline>'',
      files_written = []\<rparr> \<and>
   cuadratico_main frac_lib (dgels_returning 1 []) (\<lambda>p. True) =
     \<lparr>exit_code = 1, cout = [],
      cerr = ''Error: LAPACKE_dgels: fallo num'' @ [CHR 0xC3, CHR 0xA9] @ ''rico (info='' @
             to_string (fst (cuadratico_solve (dgels_returning 1 []))) @ '')\<newline>'',
      files_written = []\<rparr> \<and>
   cerr (lineal_main frac_lib (lineal_returning (- 3) [])) =
     ''Error: LAPACKE_dgesv: argumento ilegal en posici'' @ [CHR 0xC3, CHR 0xB3] @ ''n 3\<newline>''"
proof -
  note ok = status_code_handling
    [of "dgesvd_returning 0 [2, 1] [1, 0, 0, 1] [1, 0, 0, 1]" frac_lib
        "lineal_returning 0 [1, 1 / 2]" frac_lib
        "dgels_returning 0 [1, 2, 3, 0, 0, 0]" "\<lambda>p. True" frac_lib]
  note neg = status_code_handling
    [of "dgesvd_returning (- 3) [] [] []" frac_lib "lineal_returning (- 3) []" frac_lib
        "dgels_returning (- 4) []" "\<lambda>p. True" frac_lib]
  note pos = status_code_handling
    [of "dgesvd_returning 3 [] [] []" frac_lib "lineal_returning 2 []" frac_lib
        "dgels_returning 1 []" "\<lambda>p. True" frac_lib]
  have a0: "svd_info (svd_call (dgesvd_returning 0 [2, 1] [1, 0, 0, 1] [1, 0, 0, 1])) = 0"
    by code_simp
  have a1: "svd_info (svd_call (dgesvd_returning (- 3) [] [] [])) \<noteq> 0" by code_simp
  have b0: "fst (lineal_solve (lineal_returning 0 [1, 1 / 2])) = 0" by code_simp
  have b1: "fst (lineal_solve (lineal_returning (- 3) [])) < 0" by code_simp
  have b2: "0 < fst (lineal_solve (lineal_returning 2 []))" by code_simp
  have c0: "fst (cuadratico_solve (dgels_returning 0 [1, 2, 3, 0, 0, 0])) = 0 \<and> True"
    by code_simp
  have c1: "fst (cuadratico_solve (dgels_returning (- 4) [])) < 0" by code_simp
  have c2: "0 < fst (cuadratico_solve (dgels_returning 1 []))" by code_simp
  have m: "cerr (lineal_main frac_lib (lineal_returning (- 3) [])) =
     ''Error: LAPACKE_dgesv: argumento ilegal en posici'' @ [CHR 0xC3, CHR 0xB3] @ ''n 3\<newline>''"
    by code_simp
  have r1: "exit_code (svd_main frac_lib (dgesvd_returning 0 [2, 1] [1, 0, 0, 1] [1, 0, 0, 1])) = 0"
    using ok a0 by blast
  have r2: "svd_main frac_lib (dgesvd_returning (- 3) [] [] []) =
     \<lparr>exit_code = 1, cout = [],
      cerr = ''Error en dgesvd, info = '' @
             to_string (svd_info (svd_call (dgesvd_returning (- 3) [] [] []))) @ ''\<newline>'',
      files_written = []\<rparr>"
    using neg a1 by blast
  have r3: "exit_code (lineal_main frac_lib (lineal_returning 0 [1, 1 / 2])) = 0"
    using ok b0 by blast
  have r4: "lineal_main frac_lib (lineal_returning (- 3) []) =
     \<lparr>exit_code = 1, cout = [],
      cerr = ''Error: LAPACKE_dgesv: argumento ilegal en posici'' @ [CHR 0xC3, CHR 0xB3] @
             ''n '' @ to_string (- fst (lineal_solve (lineal_returning (- 3) []))) @ ''\<newline>'',
      files_written = []\<rparr>"
    using neg b1 by blast
  have r5: "lineal_main frac_lib (lineal_returning 2 []) =
     \<lparr>exit_code = 1, cout = [],
      cerr = ''Error: LAPACKE_dgesv: matriz singular; no se pudo resolver (info='' @
             to_string (fst (lineal_solve (lineal_returning 2 []))) @ '')\<newline>'',
      files_written = []\<rparr>"
    using pos b2 by blast
  have r6: "exit_code (cuadratico_main frac_lib (dgels_returning 0 [1, 2, 3, 0, 0, 0]) (\<lambda>p. True)) = 0"
    using ok c0 by blast
  have r7: "cuadratico_main frac_lib (dgels_returning (- 4) []) (\<lambda>p. True) =
     \<lparr>exit_code = 1, cout = [],
      cerr = ''Error: LAPACKE_dgels: argumento ilegal en posicion '' @
             to_string (- fst (cuadratico_solve (dgels_returning (- 4) []))) @ ''\<newline>'',
      files_written = []\<rparr>"
    using neg c1 by blast
  have r8: "cuadratico_main frac_lib (dgels_returning 1 []) (\<lambda>p. True) =
     \<lparr>exit_code = 1, cout = [],
      cerr = ''Error: LAPACKE_dgels: fallo num'' @ [CHR 0xC3, CHR 0xA9] @ ''rico (info='' @
             to_string (fst (cuadratico_solve (dgels_returning 1 []))) @ '')\<newline>'',
      files_written = []\<rparr>"
    using pos c2 by blast
  show ?thesis using r1 r2 r3 r4 r5 r6 r7 r8 m by (intro conjI) assumption+
qed

theorem svd_status_not_classified:
  "svd_main frac_lib (dgesvd_returning (- 3) [] [] []) =
     \<lparr>exit_code = 1, cout = [], cerr = ''Error en dgesvd, info = -3\<newline>'', files_written = []\<rparr> \<and>
   svd_main frac_lib (dgesvd_returning 3 [] [] []) =
     \<lparr>exit_code = 1, cout = [], cerr = ''Error en dgesvd, info = 3\<newline>'', files_written = []\<rparr> \<and>
   svd_check (- 3) = Some (NonzeroStatus (- 3)) \<and>
   svd_check (- 3) \<noteq> Some (IllegalArgument 3) \<and>
   svd_check 3 = Some (NonzeroStatus 3) \<and>
   svd_check 3 \<noteq> Some (NumericFailure 3)"
  by code_simp

section \<open>The diagnostics of the decomposition and the fits\<close>

lemma fit_row_plain:
  "fit_row L x y predict i (s, \<lparr>buf = b, fmt = f, prec = p, width = 0\<rparr>) =
     (s + (predict (x ! i) - y ! i)\<^sup>2,
      \<lparr>buf = b @ ''x='' @ put_double L f p (x ! i) @ ''  y='' @ put_double L f p (y ! i) @
              ''  y_hat='' @ put_double L f p (predict (x ! i)) @ ''  err='' @
              put_double L f p (predict (x ! i) - y ! i) @ ''\<newline>'',
       fmt = f, prec = p, width = 0\<rparr>)"
  by (simp add: fit_row_def Let_def seq_def put_dbl_def put_str_def power2_eq_square)

lemma fit_table_fold:
  "\<exists>t. fold (fit_row L x y predict) is (s, \<lparr>buf = b, fmt = f, prec = p, width = 0\<rparr>) =
        (s + (\<Sum>i\<leftarrow>is. (predict (x ! i) - y ! i)\<^sup>2),
         \<lparr>buf = b @ t, fmt = f, prec = p, width = 0\<rparr>)"
proof (induction "is" arbitrary: s b)
  case Nil
  show ?case by simp
next
  case (Cons i "is")
  let ?line = "''x='' @ put_double L f p (x ! i) @ ''  y='' @ put_double L f p (y ! i) @
               ''  y_hat='' @ put_double L f p (predict (x ! i)) @ ''  err='' @
               put_double L f p (predict (x ! i) - y ! i) @ ''\<newline>''"
  from Cons.IH [of "s + (predict (x ! i) - y ! i)\<^sup>2" "b @ ?line"]
  obtain t where
    "fold (fit_row L x y predict) is
       (s + (predict (x ! i) - y ! i)\<^sup>2, \<lparr>buf = b @ ?line, fmt = f, prec = p, width = 0\<rparr>) =
     (s + (predict (x ! i) - y ! i)\<^sup>2 + (\<Sum>i\<leftarrow>is. (predict (x ! i) - y ! i)\<^sup>2),
      \<lparr>buf = (b @ ?line) @ t, fmt = f, prec = p, width = 0\<rparr>)"
    by blast
  then have "fold (fit_row L x y predict) (i # is) (s, \<lparr>buf = b, fmt = f, prec = p, width = 0\<rparr>) =
     (s + (\<Sum>i\<leftarrow>i # is. (predict (x ! i) - y ! i)\<^sup>2),
      \<lparr>buf = b @ (?line @ t), fmt = f, prec = p, width = 0\<rparr>)"
    by (simp only: fold_simps comp_apply fit_row_plain list.map sum_list.Cons add.assoc append_assoc)
  then show ?case by blast
qed

lemma fit_table_sum:
  "\<exists>t. fit_table L x y predict (0, \<lparr>buf = b, fmt = f, prec = p, width = 0\<rparr>) =
        ((\<Sum>i<length x. (predict (x ! i) - y ! i)\<^sup>2),
         \<lparr>buf = b @ t, fmt = f, prec = p, width = 0\<rparr>)"
proof -
  from fit_table_fold [of L x y predict "[0..<length x]" 0 b f p]
  show ?thesis
    by (simp add: fit_table_def interv_sum_list_conv_sum_set_nat atLeast0LessThan)
qed

lemma fit_summary_buf:
  "buf (fit_summary L sse m \<lparr>buf = b, fmt = f, prec = p, width = 0\<rparr>) =
   b @ ''\<newline>SSE = '' @ put_double L f p sse @ ''\<newline>MSE = '' @
   put_double L f p (sse / of_nat m) @ ''\<newline>''"
  by (simp add: fit_summary_def seq_def put_str_def put_dbl_def)

lemma fit_summary_plain:
  "fit_summary L sse m \<lparr>buf = b, fmt = f, prec = p, width = 0\<rparr> =
   \<lparr>buf = b @ ''\<newline>SSE = '' @ put_double L f p sse @ ''\<newline>MSE = '' @
          put_double L f p (sse / of_nat m) @ ''\<newline>'',
    fmt = f, prec = p, width = 0\<rparr>"
  by (simp add: fit_summary_def seq_def put_str_def put_dbl_def)

lemma lineal_report_buf:
  fixes L :: "('s, 'a::field) iolib"
  shows "\<exists>pre. buf (lineal_report L theta) =
           pre @ ''\<newline>SSE = '' @
           put_double L Fixed 10
             (\<Sum>i<4. (theta ! 0 * lineal_x ! i + theta ! 1 - lineal_y ! i)\<^sup>2) @
           ''\<newline>MSE = '' @
           put_double L Fixed 10
             ((\<Sum>i<4. (theta ! 0 * lineal_x ! i + theta ! 1 - lineal_y ! i)\<^sup>2) / 4) @
           ''\<newline>''"
proof -
  let ?a = "theta ! 0" and ?b = "theta ! Suc 0"
  obtain b0 where out0:
    "seq [std_fixed, setprecision 10,
          put_str ''Recta de mejor ajuste (ecuacion normal):\<newline>'',
          put_str ''y = a*x + b\<newline>'',
          put_str ''a = '', put_dbl L ?a, put_str ''\<newline>'',
          put_str ''b = '', put_dbl L ?b, put_str ''\<newline>\<newline>'',
          put_str ''Puntos y prediccion:\<newline>''] ostream_init =
     \<lparr>buf = b0, fmt = Fixed, prec = 10, width = 0\<rparr>"
    by (simp add: seq_def std_fixed_def setprecision_def put_str_def put_dbl_def ostream_init_def)
  have len: "length (lineal_x :: 'a list) = 4" by (simp add: lineal_x_def)
  obtain t where
    "fit_table L lineal_x lineal_y (\<lambda>xi. ?a * xi + ?b)
       (0, \<lparr>buf = b0, fmt = Fixed, prec = 10, width = 0\<rparr>) =
     ((\<Sum>i<length (lineal_x :: 'a list). (?a * lineal_x ! i + ?b - lineal_y ! i)\<^sup>2),
      \<lparr>buf = b0 @ t, fmt = Fixed, prec = 10, width = 0\<rparr>)"
    using fit_table_sum [of L lineal_x lineal_y "\<lambda>xi. ?a * xi + ?b" b0 Fixed 10] by blast
  note tab = this [unfolded len]
  have "buf (lineal_report L theta) =
        (b0 @ t) @ ''\<newline>SSE = '' @
           put_double L Fixed 10
             (\<Sum>i<4. (?a * lineal_x ! i + ?b - lineal_y ! i)\<^sup>2) @
           ''\<newline>MSE = '' @
           put_double L Fixed 10
             ((\<Sum>i<4. (?a * lineal_x ! i + ?b - lineal_y ! i)\<^sup>2) / 4) @
           ''\<newline>''"
    by (simp add: lineal_report_def Let_def out0 tab len fit_summary_buf del: append_assoc)
  then show ?thesis unfolding One_nat_def by blast
qed

lemma cuadratico_report_plain:
  fixes L :: "('s, 'a::field) iolib"
  shows "\<exists>pre. cuadratico_report L B =
           \<lparr>buf = pre @ ''\<newline>SSE = '' @
              put_double L Fixed 10
                (\<Sum>i<6. (B ! 0 * cuadratico_x ! i * cuadratico_x ! i + B ! 1 * cuadratico_x ! i +
                          B ! 2 - cuadratico_y ! i)\<^sup>2) @
              ''\<newline>MSE = '' @
              put_double L Fixed 10
                ((\<Sum>i<6. (B ! 0 * cuadratico_x ! i * cuadratico_x ! i + B ! 1 * cuadratico_x ! i +
                           B ! 2 - cuadratico_y ! i)\<^sup>2) / 6) @
              ''\<newline>'',
            fmt = Fixed, prec = 10, width = 0\<rparr>"
proof -
  let ?a = "B ! 0" and ?b = "B ! Suc 0" and ?c = "B ! 2"
  let ?sse = "\<Sum>i<6. (?a * cuadratico_x ! i * cuadratico_x ! i + ?b * cuadratico_x ! i + ?c
                       - cuadratico_y ! i)\<^sup>2"
  obtain b0 where out0:
    "seq [std_fixed, setprecision 10,
          put_str ''Modelo cuadratico (minimos cuadrados con DGELS/QR):\<newline>'',
          put_str ''y = a*x^2 + b*x + c\<newline>'',
          put_str ''a = '', put_dbl L ?a, put_str ''\<newline>'',
          put_str ''b = '', put_dbl L ?b, put_str ''\<newline>'',
          put_str ''c = '', put_dbl L ?c, put_str ''\<newline>\<newline>'',
          put_str ''Puntos y prediccion:\<newline>''] ostream_init =
     \<lparr>buf = b0, fmt = Fixed, prec = 10, width = 0\<rparr>"
    by (simp add: seq_def std_fixed_def setprecision_def put_str_def put_dbl_def ostream_init_def)
  have len: "length (cuadratico_x :: 'a list) = 6" by (simp add: cuadratico_x_def)
  obtain t where
    "fit_table L cuadratico_x cuadratico_y (\<lambda>xi. ?a * xi * xi + ?b * xi + ?c)
       (0, \<lparr>buf = b0, fmt = Fixed, prec = 10, width = 0\<rparr>) =
     ((\<Sum>i<length (cuadratico_x :: 'a list).
          (?a * cuadratico_x ! i * cuadratico_x ! i + ?b * cuadratico_x ! i + ?c
           - cuadratico_y ! i)\<^sup>2),
      \<lparr>buf = b0 @ t, fmt = Fixed, prec = 10, width = 0\<rparr>)"
    using fit_table_sum [of L cuadratico_x cuadratico_y "\<lambda>xi. ?a * xi * xi + ?b * xi + ?c"
                           b0 Fixed 10]
    by blast
  note tab = this [unfolded len]
  have "cuadratico_report L B =
        \<lparr>buf = (b0 @ t) @ ''\<newline>SSE = '' @ put_double L Fixed 10 ?sse @
               ''\<newline>MSE = '' @ put_double L Fixed 10 (?sse / 6) @ ''\<newline>'',
         fmt = Fixed, prec = 10, width = 0\<rparr>"
    by (simp add: cuadratico_report_def Let_def out0 tab len fit_summary_plain del: append_assoc)
  then show ?thesis unfolding One_nat_def by blast
qed

lemma cuadratico_main_cout:
  fixes L :: "('s, 'a::field) iolib"
  assumes "fst (cuadratico_solve dgels) = 0"
  shows "cout (cuadratico_main L dgels can_create) =
         buf (cuadratico_report L (snd (cuadratico_solve dgels))) @
         (if can_create ''fit.csv''
          then ''\<newline>Se genero fit.csv para graficar (puntos y curva).\<newline>'' @ octave_tip
          else [])"
proof -
  obtain pre where "width (cuadratico_report L (snd (cuadratico_solve dgels))) = 0"
    using cuadratico_report_plain [of L "snd (cuadratico_solve dgels)"] by auto
  then show ?thesis
    using assms
    by (simp add: cuadratico_main_def cuadratico_check_def case_prod_unfold Let_def
          fit_failure_def seq_def put_str_def)
qed

lemma mul2x2_eq:
  "mul2x2 X Y =
     [X ! 0 * Y ! 0 + X ! 1 * Y ! 2, X ! 0 * Y ! 1 + X ! 1 * Y ! 3,
      X ! 2 * Y ! 0 + X ! 3 * Y ! 2, X ! 2 * Y ! 1 + X ! 3 * Y ! 3]"
  by (simp add: mul2x2_def upt_2 eval_nat_numeral)

lemma sum_lessThan_2: "(\<Sum>k<(2::nat). f k) = f 0 + (f 1 :: 'a::comm_monoid_add)"
  by (simp add: numeral_2_eq_2)

lemma svd_reconstruct_eq:
  "svd_reconstruct S U VT =
     [(U ! 0 * S ! 0) * VT ! 0 + (U ! 1 * S ! 1) * VT ! 2,
      (U ! 0 * S ! 0) * VT ! 1 + (U ! 1 * S ! 1) * VT ! 3,
      (U ! 2 * S ! 0) * VT ! 0 + (U ! 3 * S ! 1) * VT ! 2,
      (U ! 2 * S ! 0) * VT ! 1 + (U ! 3 * S ! 1) * VT ! 3]"
  by (simp add: svd_reconstruct_def mul2x2_eq Let_def eval_nat_numeral)

lemma svd_reconstruct_nth:
  assumes "p < 4"
  shows "svd_reconstruct S U VT ! p =
         (\<Sum>k<2. U ! (p div 2 * 2 + k) * S ! k * VT ! (k * 2 + p mod 2))"
proof -
  from assms consider "p = 0" | "p = 1" | "p = 2" | "p = 3" by linarith
  then show ?thesis
  proof cases
    case 1
    have "(\<Sum>k<2. U ! (0 div 2 * 2 + k) * S ! k * VT ! (k * 2 + 0 mod 2)) =
          U ! 0 * S ! 0 * VT ! 0 + U ! 1 * S ! 1 * VT ! 2"
      unfolding sum_lessThan_2 by simp
    with 1 show ?thesis by (simp add: svd_reconstruct_eq)
  next
    case 2
    have "(\<Sum>k<2. U ! (1 div 2 * 2 + k) * S ! k * VT ! (k * 2 + 1 mod 2)) =
          U ! 0 * S ! 0 * VT ! 1 + U ! 1 * S ! 1 * VT ! 3"
      unfolding sum_lessThan_2 by simp
    with 2 show ?thesis by (simp add: svd_reconstruct_eq)
  next
    case 3
    have "(\<Sum>k<2. U ! (2 div 2 * 2 + k) * S ! k * VT ! (k * 2 + 2 mod 2)) =
          U ! 2 * S ! 0 * VT ! 0 + U ! 3 * S ! 1 * VT ! 2"
      unfolding sum_lessThan_2 by simp
    with 3 show ?thesis by (simp add: svd_reconstruct_eq)
  next
    case 4
    have "(\<Sum>k<2. U ! (3 div 2 * 2 + k) * S ! k * VT ! (k * 2 + 3 mod 2)) =
          U ! 2 * S ! 0 * VT ! 1 + U ! 3 * S ! 1 * VT ! 3"
      unfolding sum_lessThan_2 by simp
    with 4 show ?thesis by (simp add: svd_reconstruct_eq)
  qed
qed

lemma running_max:
  fixes g :: "nat \<Rightarrow> 'a::linorder"
  shows "fold (\<lambda>i max_err. let diff = g i in if diff > max_err then diff else max_err) is m =
         Max (insert m (g ` set is))"
proof (induction "is" arbitrary: m)
  case Nil
  show ?case by simp
next
  case (Cons i "is")
  have "Max (insert (if m < g i then g i else m) (g ` set is)) =
        Max (insert m (insert (g i) (g ` set is)))"
    by (cases "g ` set is = {}") (auto simp: max_def Max_insert)
  with Cons show ?case by (simp add: Let_def)
qed

lemma max_abs_diff_eq:
  fixes X Y :: "'a::linordered_idom list"
  shows "max_abs_diff X Y = Max ((\<lambda>p. \<bar>X ! p - Y ! p\<bar>) ` {..<4})"
proof -
  let ?g = "\<lambda>p. \<bar>X ! p - Y ! p\<bar>"
  have ne: "?g ` {..<4} \<noteq> {}"
  proof -
    have "(0::nat) \<in> {..<4}" by simp
    then show ?thesis by blast
  qed
  have "max_abs_diff X Y = Max (insert 0 (?g ` set [0..<4]))"
    unfolding max_abs_diff_def by (rule running_max)
  also have "set [0..<4] = {..<4::nat}" by auto
  also have "Max (insert 0 (?g ` {..<4})) = max 0 (Max (?g ` {..<4}))"
    using ne by (intro Max_insert) simp_all
  also have "\<dots> = Max (?g ` {..<4})"
  proof -
    have "?g 0 \<le> Max (?g ` {..<4})" by (rule Max_ge) auto
    moreover have "0 \<le> ?g 0" by simp
    ultimately have "0 \<le> Max (?g ` {..<4})" by (rule order_trans [rotated])
    then show ?thesis by (rule max_absorb2)
  qed
  finally show ?thesis .
qed

lemma print_matrix_plain:
  "\<exists>t. print_matrix L X 2 2 2 \<lparr>buf = b, fmt = f, prec = p, width = 0\<rparr> =
        \<lparr>buf = b @ t, fmt = f, prec = p, width = 0\<rparr>"
  by (simp add: print_matrix_def upt_2 seq_def setw_def put_dbl_def put_str_def)

lemma svd_report_buf:
  fixes L :: "('s, 'a::linordered_field) iolib"
  shows "\<exists>pre. buf (svd_report L r) =
           pre @ ''\<newline>Error m'' @ [CHR 0xC3, CHR 0xA1] @ ''ximo |A_rec - A_orig| = '' @
           put_double L Fixed 8
             (Max ((\<lambda>p. \<bar>(\<Sum>k<2. svd_U r ! (p div 2 * 2 + k) * svd_S r ! k *
                                  svd_VT r ! (k * 2 + p mod 2))
                         - svd_A ! p\<bar>) ` {..<4})) @
           ''\<newline>''"
proof -
  let ?rec = "svd_reconstruct (svd_S r) (svd_U r) (svd_VT r)"
  let ?E = "Max ((\<lambda>p. \<bar>(\<Sum>k<2. svd_U r ! (p div 2 * 2 + k) * svd_S r ! k *
                               svd_VT r ! (k * 2 + p mod 2)) - svd_A ! p\<bar>) ` {..<4})"
  have E: "max_abs_diff ?rec svd_A = ?E"
    unfolding max_abs_diff_eq
    by (rule arg_cong [where f = Max], rule image_cong) (simp_all add: svd_reconstruct_nth)
  obtain b0 where s0:
    "seq [std_fixed, setprecision 8, put_str ''Valores singulares S:\<newline>'',
          fold (\<lambda>i. seq [put_str ''  S['', put_int (int i), put_str ''] = '',
                          put_dbl L (svd_S r ! i), put_str ''\<newline>'']) [0..<2],
          put_str ''\<newline>Matriz U (2x2):\<newline>''] ostream_init =
     \<lparr>buf = b0, fmt = Fixed, prec = 8, width = 0\<rparr>"
    by (simp add: seq_def upt_2 std_fixed_def setprecision_def put_str_def put_dbl_def put_int_def
          ostream_init_def)
  obtain t1 where p1: "print_matrix L (svd_U r) 2 2 2 \<lparr>buf = b0, fmt = Fixed, prec = 8, width = 0\<rparr> =
      \<lparr>buf = b0 @ t1, fmt = Fixed, prec = 8, width = 0\<rparr>"
    using print_matrix_plain by blast
  obtain t2 where p2: "print_matrix L (svd_VT r) 2 2 2
        \<lparr>buf = (b0 @ t1) @ ''\<newline>Matriz V^T (2x2):\<newline>'', fmt = Fixed, prec = 8, width = 0\<rparr> =
      \<lparr>buf = ((b0 @ t1) @ ''\<newline>Matriz V^T (2x2):\<newline>'') @ t2, fmt = Fixed, prec = 8, width = 0\<rparr>"
    using print_matrix_plain by blast
  obtain t3 where p3: "print_matrix L ?rec 2 2 2
        \<lparr>buf = (((b0 @ t1) @ ''\<newline>Matriz V^T (2x2):\<newline>'') @ t2) @
                ''\<newline>A reconstruida (U * Sigma * V^T):\<newline>'',
         fmt = Fixed, prec = 8, width = 0\<rparr> =
      \<lparr>buf = ((((b0 @ t1) @ ''\<newline>Matriz V^T (2x2):\<newline>'') @ t2) @
                ''\<newline>A reconstruida (U * Sigma * V^T):\<newline>'') @ t3,
       fmt = Fixed, prec = 8, width = 0\<rparr>"
    using print_matrix_plain by blast
  let ?pre = "((((b0 @ t1) @ ''\<newline>Matriz V^T (2x2):\<newline>'') @ t2) @
                ''\<newline>A reconstruida (U * Sigma * V^T):\<newline>'') @ t3"
  let ?head = "seq [std_fixed, setprecision 8, put_str ''Valores singulares S:\<newline>'',
                    fold (\<lambda>i. seq [put_str ''  S['', put_int (int i), put_str ''] = '',
                                    put_dbl L (svd_S r ! i), put_str ''\<newline>'']) [0..<2],
                    put_str ''\<newline>Matriz U (2x2):\<newline>''] ostream_init"
  have "svd_report L r =
        seq [put_str ''\<newline>Matriz V^T (2x2):\<newline>'',
             print_matrix L (svd_VT r) 2 2 2,
             put_str ''\<newline>A reconstruida (U * Sigma * V^T):\<newline>'',
             print_matrix L ?rec 2 2 2,
             put_str (''\<newline>Error m'' @ [CHR 0xC3, CHR 0xA1] @ ''ximo |A_rec - A_orig| = ''),
             put_dbl L (max_abs_diff ?rec svd_A), put_str ''\<newline>'']
          (print_matrix L (svd_U r) 2 2 2 ?head)"
    unfolding svd_report_def Let_def seq_def
    by (simp only: fold_simps comp_apply)
  also have "\<dots> = \<lparr>buf = ?pre @ ''\<newline>Error m'' @ [CHR 0xC3, CHR 0xA1] @
                           ''ximo |A_rec - A_orig| = '' @ put_double L Fixed 8 ?E @ ''\<newline>'',
                     fmt = Fixed, prec = 8, width = 0\<rparr>"
    unfolding s0 p1
    by (simp add: seq_def put_str_def p2 p3 put_dbl_def E del: append_assoc)
  finally show ?thesis by (intro exI [of _ ?pre]) simp
qed

lemma svd_main_cout:
  "svd_info (svd_call dgesvd) = 0 \<Longrightarrow>
   cout (svd_main L dgesvd) = buf (svd_report L (svd_call dgesvd))"
  by (simp add: svd_main_def svd_check_def Let_def)

lemma lineal_main_cout:
  "fst (lineal_solve B) = 0 \<Longrightarrow>
   cout (lineal_main L B) = buf (lineal_report L (snd (lineal_solve B)))"
  by (simp add: lineal_main_def lineal_check_def case_prod_unfold)

text \<open>Claim C8. Each driver reports its diagnostic once the status is 0. The decomposition
  driver ends its output with the maximum, over the four elements, of the absolute
  difference between the product \<open>U * Sigma * V^T\<close> and the original matrix. Each fit ends
  its report with \<^verbatim>\<open>SSE\<close>, the sum over all sample points of the squared difference
  between the predicted and the observed value, and \<^verbatim>\<open>MSE\<close>, that sum divided by the number
  of samples (4 and 6); the quadratic fit then goes on to the file for plotting. The
  arithmetic is that of an ordered field: what the formulas compute exactly, not their
  rounding in IEEE doubles.\<close>

theorem diagnostics_reported:
  fixes La :: "('s1, 'a::linordered_field) iolib"
    and Lb :: "('s2, 'b::field) iolib"
    and Lc :: "('s3, 'c::field) iolib"
  shows
  "(svd_info (svd_call dgesvd) = 0 \<longrightarrow>
      (\<exists>pre. cout (svd_main La dgesvd) =
         pre @ ''\<newline>Error m'' @ [CHR 0xC3, CHR 0xA1] @ ''ximo |A_rec - A_orig| = '' @
         put_double La Fixed 8
           (Max ((\<lambda>p. \<bar>(\<Sum>k<2. svd_U (svd_call dgesvd) ! (p div 2 * 2 + k) *
                                svd_S (svd_call dgesvd) ! k *
                                svd_VT (svd_call dgesvd) ! (k * 2 + p mod 2))
                       - svd_A ! p\<bar>) ` {..<4})) @
         ''\<newline>'')) \<and>
   (fst (lineal_solve B) = 0 \<longrightarrow>
      (\<exists>pre. cout (lineal_main Lb B) =
         pre @ ''\<newline>SSE = '' @
         put_double Lb Fixed 10
           (\<Sum>i<4. (snd (lineal_solve B) ! 0 * lineal_x ! i + snd (lineal_solve B) ! 1
                     - lineal_y ! i)\<^sup>2) @
         ''\<newline>MSE = '' @
         put_double Lb Fixed 10
           ((\<Sum>i<4. (snd (lineal_solve B) ! 0 * lineal_x ! i + snd (lineal_solve B) ! 1
                      - lineal_y ! i)\<^sup>2) / 4) @
         ''\<newline>'')) \<and>
   (fst (cuadratico_solve dgels) = 0 \<longrightarrow>
      (\<exists>pre post. cout (cuadratico_main Lc dgels can_create) =
         pre @ ''\<newline>SSE = '' @
         put_double Lc Fixed 10
           (\<Sum>i<6. (snd (cuadratico_solve dgels) ! 0 * cuadratico_x ! i * cuadratico_x ! i +
                     snd (cuadratico_solve dgels) ! 1 * cuadratico_x ! i +
                     snd (cuadratico_solve dgels) ! 2 - cuadratico_y ! i)\<^sup>2) @
         ''\<newline>MSE = '' @
         put_double Lc Fixed 10
           ((\<Sum>i<6. (snd (cuadratico_solve dgels) ! 0 * cuadratico_x ! i * cuadratico_x ! i +
                      snd (cuadratico_solve dgels) ! 1 * cuadratico_x ! i +
                      snd (cuadratico_solve dgels) ! 2 - cuadratico_y ! i)\<^sup>2) / 6) @
         ''\<newline>'' @ post))"
proof (intro conjI impI)
  assume "svd_info (svd_call dgesvd) = 0"
  then show "\<exists>pre. cout (svd_main La dgesvd) =
         pre @ ''\<newline>Error m'' @ [CHR 0xC3, CHR 0xA1] @ ''ximo |A_rec - A_orig| = '' @
         put_double La Fixed 8
           (Max ((\<lambda>p. \<bar>(\<Sum>k<2. svd_U (svd_call dgesvd) ! (p div 2 * 2 + k) *
                                svd_S (svd_call dgesvd) ! k *
                                svd_VT (svd_call dgesvd) ! (k * 2 + p mod 2))
                       - svd_A ! p\<bar>) ` {..<4})) @
         ''\<newline>''"
    using svd_report_buf [of La "svd_call dgesvd"] by (simp only: svd_main_cout)
next
  assume "fst (lineal_solve B) = 0"
  then show "\<exists>pre. cout (lineal_main Lb B) =
         pre @ ''\<newline>SSE = '' @
         put_double Lb Fixed 10
           (\<Sum>i<4. (snd (lineal_solve B) ! 0 * lineal_x ! i + snd (lineal_solve B) ! 1
                     - lineal_y ! i)\<^sup>2) @
         ''\<newline>MSE = '' @
         put_double Lb Fixed 10
           ((\<Sum>i<4. (snd (lineal_solve B) ! 0 * lineal_x ! i + snd (lineal_solve B) ! 1
                      - lineal_y ! i)\<^sup>2) / 4) @
         ''\<newline>''"
    using lineal_report_buf [of Lb "snd (lineal_solve B)"] by (simp only: lineal_main_cout)
next
  assume a: "fst (cuadratico_solve dgels) = 0"
  let ?B = "snd (cuadratico_solve dgels)"
  let ?tail = "''\<newline>SSE = '' @
         put_double Lc Fixed 10
           (\<Sum>i<6. (?B ! 0 * cuadratico_x ! i * cuadratico_x ! i + ?B ! 1 * cuadratico_x ! i +
                     ?B ! 2 - cuadratico_y ! i)\<^sup>2) @
         ''\<newline>MSE = '' @
         put_double Lc Fixed 10
           ((\<Sum>i<6. (?B ! 0 * cuadratico_x ! i * cuadratico_x ! i + ?B ! 1 * cuadratico_x ! i +
                      ?B ! 2 - cuadratico_y ! i)\<^sup>2) / 6) @
         ''\<newline>''"
  obtain pre where "buf (cuadratico_report Lc ?B) = pre @ ?tail"
    using cuadratico_report_plain [of Lc ?B] by auto
  then have "cout (cuadratico_main Lc dgels can_create) =
      pre @ ?tail @
      (if can_create ''fit.csv''
       then ''\<newline>Se genero fit.csv para graficar (puntos y curva).\<newline>'' @ octave_tip
       else [])"
    unfolding cuadratico_main_cout [OF a] by (simp only: append_assoc)
  then show "\<exists>pre post. cout (cuadratico_main Lc dgels can_create) =
         pre @ ''\<newline>SSE = '' @
         put_double Lc Fixed 10
           (\<Sum>i<6. (?B ! 0 * cuadratico_x ! i * cuadratico_x ! i + ?B ! 1 * cuadratico_x ! i +
                     ?B ! 2 - cuadratico_y ! i)\<^sup>2) @
         ''\<newline>MSE = '' @
         put_double Lc Fixed 10
           ((\<Sum>i<6. (?B ! 0 * cuadratico_x ! i * cuadratico_x ! i + ?B ! 1 * cuadratico_x ! i +
                      ?B ! 2 - cuadratico_y ! i)\<^sup>2) / 6) @
         ''\<newline>'' @ post"
    by (intro exI [of _ pre] exI [of _ "if can_create ''fit.csv''
       then ''\<newline>Se genero fit.csv para graficar (puntos y curva).\<newline>'' @ octave_tip
       else []"]) (simp only: append_assoc)
qed

lemma lessThan_4: "{..<4::nat} = {0, 1, 2, 3}"
  by auto

theorem diagnostics_reported_witness:
  "svd_info (svd_call (dgesvd_returning 0 [2, 1] [1, 0, 0, 1] [1, 0, 0, 1])) = 0 \<and>
   fst (lineal_solve (lineal_returning 0 [1, 1 / 2])) = 0 \<and>
   fst (cuadratico_solve (dgels_returning 0 [1, 2, 3, 0, 0, 0])) = 0 \<and>
   (\<exists>pre. cout (svd_main frac_lib (dgesvd_returning 0 [2, 1] [1, 0, 0, 1] [1, 0, 0, 1])) =
         pre @ ''\<newline>Error m'' @ [CHR 0xC3, CHR 0xA1] @ ''ximo |A_rec - A_orig| = '' @
         put_double frac_lib Fixed 8
           (Max ((\<lambda>p. \<bar>(\<Sum>k<2. svd_U (svd_call (dgesvd_returning 0 [2, 1] [1, 0, 0, 1] [1, 0, 0, 1])) ! (p div 2 * 2 + k) *
                                svd_S (svd_call (dgesvd_returning 0 [2, 1] [1, 0, 0, 1] [1, 0, 0, 1])) ! k *
                                svd_VT (svd_call (dgesvd_returning 0 [2, 1] [1, 0, 0, 1] [1, 0, 0, 1])) ! (k * 2 + p mod 2))
                       - svd_A ! p\<bar>) ` {..<4})) @
         ''\<newline>'') \<and>
   (\<exists>pre. cout (lineal_main frac_lib (lineal_returning 0 [1, 1 / 2])) =
         pre @ ''\<newline>SSE = '' @
         put_double frac_lib Fixed 10
           (\<Sum>i<4. (snd (lineal_solve (lineal_returning 0 [1, 1 / 2])) ! 0 * lineal_x ! i + snd (lineal_solve (lineal_returning 0 [1, 1 / 2])) ! 1
                     - lineal_y ! i)\<^sup>2) @
         ''\<newline>MSE = '' @
         put_double frac_lib Fixed 10
           ((\<Sum>i<4. (snd (lineal_solve (lineal_returning 0 [1, 1 / 2])) ! 0 * lineal_x ! i + snd (lineal_solve (lineal_returning 0 [1, 1 / 2])) ! 1
                      - lineal_y ! i)\<^sup>2) / 4) @
         ''\<newline>'') \<and>
   (\<exists>pre post. cout (cuadratico_main frac_lib (dgels_returning 0 [1, 2, 3, 0, 0, 0]) (\<lambda>p. True)) =
         pre @ ''\<newline>SSE = '' @
         put_double frac_lib Fixed 10
           (\<Sum>i<6. (snd (cuadratico_solve (dgels_returning 0 [1, 2, 3, 0, 0, 0])) ! 0 * cuadratico_x ! i * cuadratico_x ! i +
                     snd (cuadratico_solve (dgels_returning 0 [1, 2, 3, 0, 0, 0])) ! 1 * cuadratico_x ! i +
                     snd (cuadratico_solve (dgels_returning 0 [1, 2, 3, 0, 0, 0])) ! 2 - cuadratico_y ! i)\<^sup>2) @
         ''\<newline>MSE = '' @
         put_double frac_lib Fixed 10
           ((\<Sum>i<6. (snd (cuadratico_solve (dgels_returning 0 [1, 2, 3, 0, 0, 0])) ! 0 * cuadratico_x ! i * cuadratico_x ! i +
                      snd (cuadratico_solve (dgels_returning 0 [1, 2, 3, 0, 0, 0])) ! 1 * cuadratico_x ! i +
                      snd (cuadratico_solve (dgels_returning 0 [1, 2, 3, 0, 0, 0])) ! 2 - cuadratico_y ! i)\<^sup>2) / 6) @
         ''\<newline>'' @ post) \<and>
   Max ((\<lambda>p. \<bar>(\<Sum>k<2. svd_U (svd_call (dgesvd_returning 0 [2, 1] [1, 0, 0, 1] [1, 0, 0, 1])) ! (p div 2 * 2 + k) *
                          svd_S (svd_call (dgesvd_returning 0 [2, 1] [1, 0, 0, 1] [1, 0, 0, 1])) ! k *
                          svd_VT (svd_call (dgesvd_returning 0 [2, 1] [1, 0, 0, 1] [1, 0, 0, 1])) ! (k * 2 + p mod 2))
                 - svd_A ! p\<bar>) ` {..<4}) = (1 :: rat) \<and>
   (\<Sum>i<4. (snd (lineal_solve (lineal_returning 0 [1, 1 / 2])) ! 0 * lineal_x ! i + snd (lineal_solve (lineal_returning 0 [1, 1 / 2])) ! 1 - lineal_y ! i)\<^sup>2) = (1 :: rat) \<and>
   (\<Sum>i<6. (snd (cuadratico_solve (dgels_returning 0 [1, 2, 3, 0, 0, 0])) ! 0 * cuadratico_x ! i * cuadratico_x ! i +
             snd (cuadratico_solve (dgels_returning 0 [1, 2, 3, 0, 0, 0])) ! 1 * cuadratico_x ! i +
             snd (cuadratico_solve (dgels_returning 0 [1, 2, 3, 0, 0, 0])) ! 2 - cuadratico_y ! i)\<^sup>2) = (80777 / 50 :: rat)"
proof -
  note t = diagnostics_reported
    [of "dgesvd_returning 0 [2, 1] [1, 0, 0, 1] [1, 0, 0, 1]" frac_lib
        "lineal_returning 0 [1, 1 / 2]" frac_lib
        "dgels_returning 0 [1, 2, 3, 0, 0, 0]" frac_lib "\<lambda>p. True"]
  have a: "svd_info (svd_call (dgesvd_returning 0 [2, 1] [1, 0, 0, 1] [1, 0, 0, 1])) = 0"
    by code_simp
  have b: "fst (lineal_solve (lineal_returning 0 [1, 1 / 2])) = 0" by code_simp
  have c: "fst (cuadratico_solve (dgels_returning 0 [1, 2, 3, 0, 0, 0])) = 0" by code_simp
  have r: "svd_S (svd_call (dgesvd_returning 0 [2, 1] [1, 0, 0, 1] [1, 0, 0, 1])) = [2, 1]"
    "svd_U (svd_call (dgesvd_returning 0 [2, 1] [1, 0, 0, 1] [1, 0, 0, 1])) = [1, 0, 0, 1]"
    "svd_VT (svd_call (dgesvd_returning 0 [2, 1] [1, 0, 0, 1] [1, 0, 0, 1])) = [1, 0, 0, 1]"
    by (simp_all add: svd_call_def dgesvd_returning_def)
  have th: "snd (lineal_solve (lineal_returning 0 [1, 1 / 2])) = [1, 1 / 2]"
    by (simp add: lineal_solve_def lineal_returning_def Let_def)
  have bb: "snd (cuadratico_solve (dgels_returning 0 [1, 2, 3, 0, 0, 0])) = [1, 2, 3, 0, 0, 0]"
    by (simp add: cuadratico_solve_def dgels_returning_def Let_def)
  have v1: "Max ((\<lambda>p. \<bar>(\<Sum>k<2. svd_U (svd_call (dgesvd_returning 0 [2, 1] [1, 0, 0, 1] [1, 0, 0, 1])) ! (p div 2 * 2 + k) *
                          svd_S (svd_call (dgesvd_returning 0 [2, 1] [1, 0, 0, 1] [1, 0, 0, 1])) ! k *
                          svd_VT (svd_call (dgesvd_returning 0 [2, 1] [1, 0, 0, 1] [1, 0, 0, 1])) ! (k * 2 + p mod 2))
                 - svd_A ! p\<bar>) ` {..<4}) = (1 :: rat)"
    unfolding r by (simp add: lessThan_4 sum_lessThan_2 svd_A_def)
  have v2: "(\<Sum>i<4. (snd (lineal_solve (lineal_returning 0 [1, 1 / 2])) ! 0 * lineal_x ! i + snd (lineal_solve (lineal_returning 0 [1, 1 / 2])) ! 1 - lineal_y ! i)\<^sup>2) = (1 :: rat)"
    unfolding th by (simp add: lineal_x_def lineal_y_def eval_nat_numeral power2_eq_square)
  have v3: "(\<Sum>i<6. (snd (cuadratico_solve (dgels_returning 0 [1, 2, 3, 0, 0, 0])) ! 0 * cuadratico_x ! i * cuadratico_x ! i +
             snd (cuadratico_solve (dgels_returning 0 [1, 2, 3, 0, 0, 0])) ! 1 * cuadratico_x ! i +
             snd (cuadratico_solve (dgels_returning 0 [1, 2, 3, 0, 0, 0])) ! 2 - cuadratico_y ! i)\<^sup>2) = (80777 / 50 :: rat)"
    unfolding bb by (simp add: cuadratico_x_def cuadratico_y_def eval_nat_numeral power2_eq_square)
  show ?thesis
    using a b c mp [OF t [THEN conjunct1] a] mp [OF t [THEN conjunct2, THEN conjunct1] b]
      mp [OF t [THEN conjunct2, THEN conjunct2] c] v1 v2 v3
    by (intro conjI) assumption+
qed

end
